theory Spec2Isabelle
  imports Main "HOL-Library.Word" "HOL-Library.Sublist" "HOL-Library.Char_ord"
    "HOL-Library.List_Lexorder"
begin

unbundle bit_operations_syntax

section \<open>The dependency contributor of modules.go\<close>

text \<open>
  A shallow embedding of \<^verbatim>\<open>vendor/github.com/cloudfoundry/npm-cnb/modules/modules.go\<close>.
  The Go code runs against a file system, a clock, the process environment, a package
  manager (an injected interface) and the layer store of libcfbuildpack. All of them are
  components of an explicit \<open>world\<close> that every function takes and returns.
\<close>

subsection \<open>Constants (modules.go, lines 19-28)\<close>

definition Dependency :: string where "Dependency = ''node_modules''"
definition NodeDependency :: string where "NodeDependency = ''node''"
definition Cache :: string where "Cache = ''cache''"
definition ModulesDir :: string where "ModulesDir = ''node_modules''"
definition ModulesMetaName :: string where "ModulesMetaName = ''Node Modules''"
definition CacheDir :: string where "CacheDir = ''npm-cache''"
definition CacheMetaName :: string where "CacheMetaName = ''NPM Cache''"
definition PackageLock :: string where "PackageLock = ''package-lock.json''"

subsection \<open>Bytes, hexadecimal text and the clock's reading\<close>

type_synonym byte = "8 word"

text \<open>The digit table of Go's strconv (\<^verbatim>\<open>digits\<close>) and of encoding/hex (its first 16).\<close>

definition digits :: string where
  "digits = ''0123456789abcdefghijklmnopqrstuvwxyz''"

definition hexdigit :: "nat \<Rightarrow> char" where
  "hexdigit d = digits ! (d mod 16)"

text \<open>\<^verbatim>\<open>hex.EncodeToString\<close>: two lower-case digits for each byte, high nibble first.\<close>

fun hex_EncodeToString :: "byte list \<Rightarrow> string" where
  "hex_EncodeToString [] = []"
| "hex_EncodeToString (b # bs) =
     hexdigit (unat (drop_bit 4 b)) # hexdigit (unat (b AND 15)) # hex_EncodeToString bs"

text \<open>
  \<^verbatim>\<open>strconv.formatBits\<close> for base 16 (a power of two): the loop
  \<^verbatim>\<open>for u >= b { i--; a[i] = digits[uint(u)&m]; u >>= shift }\<close> followed by the last digit.
  The buffer filled from its end is the accumulator.
\<close>

function formatBits16 :: "64 word \<Rightarrow> string \<Rightarrow> string" where
  "formatBits16 u acc =
     (if 16 \<le> u then formatBits16 (drop_bit 4 u) (hexdigit (unat (u AND 15)) # acc)
      else hexdigit (unat u) # acc)"
  by pat_completeness auto
termination
proof (relation "measure (\<lambda>(u, acc). unat u)")
  show "wf (measure (\<lambda>(u :: 64 word, acc :: string). unat u))" by simp
next
  fix u :: "64 word" and acc :: string
  assume "16 \<le> u"
  then have "16 \<le> unat u" by (simp add: word_le_nat_alt)
  then have "unat u div 16 < unat u" by simp
  then show "((drop_bit 4 u, hexdigit (unat (u AND 15)) # acc), (u, acc))
               \<in> measure (\<lambda>(u, acc). unat u)"
    by (simp add: drop_bit_eq_div unat_div)
qed

text \<open>
  \<^verbatim>\<open>strconv.FormatInt(i, 16)\<close> on an int64: \<^verbatim>\<open>formatBits(nil, uint64(i), base, i < 0, false)\<close>,
  which negates the unsigned value when \<open>i < 0\<close> and puts the sign in front.
\<close>

definition FormatInt16 :: "64 word \<Rightarrow> string" where
  "FormatInt16 i =
     (if sint i < 0 then CHR ''-'' # formatBits16 (- i) [] else formatBits16 i [])"

subsection \<open>SHA-256 (crypto/sha256 of the Go standard library, FIPS 180-4)\<close>

text \<open>
  \<^verbatim>\<open>sha256.Sum256\<close> is not code of modules.go; it is written out here after the standard it
  implements, so that the fingerprint is a computable function of the lock file's bytes.
\<close>

type_synonym u32 = "32 word"

definition K256 :: "u32 list" where
  "K256 =
    [0x428A2F98, 0x71374491, 0xB5C0FBCF, 0xE9B5DBA5, 0x3956C25B, 0x59F111F1, 0x923F82A4, 0xAB1C5ED5,
     0xD807AA98, 0x12835B01, 0x243185BE, 0x550C7DC3, 0x72BE5D74, 0x80DEB1FE, 0x9BDC06A7, 0xC19BF174,
     0xE49B69C1, 0xEFBE4786, 0x0FC19DC6, 0x240CA1CC, 0x2DE92C6F, 0x4A7484AA, 0x5CB0A9DC, 0x76F988DA,
     0x983E5152, 0xA831C66D, 0xB00327C8, 0xBF597FC7, 0xC6E00BF3, 0xD5A79147, 0x06CA6351, 0x14292967,
     0x27B70A85, 0x2E1B2138, 0x4D2C6DFC, 0x53380D13, 0x650A7354, 0x766A0ABB, 0x81C2C92E, 0x92722C85,
     0xA2BFE8A1, 0xA81A664B, 0xC24B8B70, 0xC76C51A3, 0xD192E819, 0xD6990624, 0xF40E3585, 0x106AA070,
     0x19A4C116, 0x1E376C08, 0x2748774C, 0x34B0BCB5, 0x391C0CB3, 0x4ED8AA4A, 0x5B9CCA4F, 0x682E6FF3,
     0x748F82EE, 0x78A5636F, 0x84C87814, 0x8CC70208, 0x90BEFFFA, 0xA4506CEB, 0xBEF9A3F7, 0xC67178F2]"

type_synonym digest_state = "u32 \<times> u32 \<times> u32 \<times> u32 \<times> u32 \<times> u32 \<times> u32 \<times> u32"

definition init256 :: digest_state where
  "init256 = (0x6A09E667, 0xBB67AE85, 0x3C6EF372, 0xA54FF53A,
              0x510E527F, 0x9B05688C, 0x1F83D9AB, 0x5BE0CD19)"

definition rotr :: "nat \<Rightarrow> u32 \<Rightarrow> u32" where
  "rotr n x = drop_bit n x OR push_bit (32 - n) x"

definition Ch :: "u32 \<Rightarrow> u32 \<Rightarrow> u32 \<Rightarrow> u32" where
  "Ch x y z = (x AND y) XOR (NOT x AND z)"

definition Maj :: "u32 \<Rightarrow> u32 \<Rightarrow> u32 \<Rightarrow> u32" where
  "Maj x y z = (x AND y) XOR (x AND z) XOR (y AND z)"

definition bsig0 :: "u32 \<Rightarrow> u32" where
  "bsig0 x = rotr 2 x XOR rotr 13 x XOR rotr 22 x"

definition bsig1 :: "u32 \<Rightarrow> u32" where
  "bsig1 x = rotr 6 x XOR rotr 11 x XOR rotr 25 x"

definition ssig0 :: "u32 \<Rightarrow> u32" where
  "ssig0 x = rotr 7 x XOR rotr 18 x XOR drop_bit 3 x"

definition ssig1 :: "u32 \<Rightarrow> u32" where
  "ssig1 x = rotr 17 x XOR rotr 19 x XOR drop_bit 10 x"

text \<open>Padding: the byte 0x80, zeros up to 56 modulo 64, the bit length in 8 bytes.\<close>

definition be64 :: "64 word \<Rightarrow> byte list" where
  "be64 n = map (\<lambda>i. ucast (drop_bit (8 * (7 - i)) n)) [0, 1, 2, 3, 4, 5, 6, 7]"

definition pad256 :: "byte list \<Rightarrow> byte list" where
  "pad256 msg =
     msg @ [0x80] @ replicate ((119 - length msg mod 64) mod 64) 0 @ be64 (push_bit 3 (word_of_nat (length msg)))"

fun be32 :: "byte list \<Rightarrow> u32 list" where
  "be32 (a # b # c # d # bs) =
     (push_bit 24 (ucast a) OR push_bit 16 (ucast b) OR push_bit 8 (ucast c) OR ucast d)
       # be32 bs"
| "be32 _ = []"

definition bytes32 :: "u32 \<Rightarrow> byte list" where
  "bytes32 w = [ucast (drop_bit 24 w), ucast (drop_bit 16 w), ucast (drop_bit 8 w), ucast w]"

text \<open>The message schedule: sixteen words of the block, extended to sixty-four.\<close>

primrec schedule :: "nat \<Rightarrow> u32 list \<Rightarrow> u32 list" where
  "schedule 0 w = w"
| "schedule (Suc k) w =
     schedule k
       (let t = length w
        in w @ [ssig1 (w ! (t - 2)) + w ! (t - 7) + ssig0 (w ! (t - 15)) + w ! (t - 16)])"

fun round256 :: "u32 \<times> u32 \<Rightarrow> digest_state \<Rightarrow> digest_state" where
  "round256 (k, w) (a, b, c, d, e, f, g, h) =
     (let t1 = h + bsig1 e + Ch e f g + k + w;
          t2 = bsig0 a + Maj a b c
      in (t1 + t2, a, b, c, d + t1, e, f, g))"

fun add_state :: "digest_state \<Rightarrow> digest_state \<Rightarrow> digest_state" where
  "add_state (a, b, c, d, e, f, g, h) (a', b', c', d', e', f', g', h') =
     (a + a', b + b', c + c', d + d', e + e', f + f', g + g', h + h')"

definition block256 :: "byte list \<Rightarrow> digest_state \<Rightarrow> digest_state" where
  "block256 blk st = add_state st (fold round256 (zip K256 (schedule 48 (be32 blk))) st)"

fun blocks256 :: "nat \<Rightarrow> byte list \<Rightarrow> digest_state \<Rightarrow> digest_state" where
  "blocks256 0 bs st = st"
| "blocks256 (Suc n) bs st = blocks256 n (drop 64 bs) (block256 (take 64 bs) st)"

fun state_bytes :: "digest_state \<Rightarrow> byte list" where
  "state_bytes (a, b, c, d, e, f, g, h) = concat (map bytes32 [a, b, c, d, e, f, g, h])"

definition sha256_Sum256 :: "byte list \<Rightarrow> byte list" where
  "sha256_Sum256 msg =
     (let p = pad256 msg in state_bytes (blocks256 (length p div 64) p init256))"

text \<open>A Go string or byte-slice literal as bytes.\<close>

definition bytes_of :: "string \<Rightarrow> byte list" where
  "bytes_of s = map (\<lambda>c. word_of_nat (of_char c)) s"

subsection \<open>Errors\<close>

text \<open>
  A Go \<^verbatim>\<open>error\<close> is seen by this code through \<^verbatim>\<open>os.IsNotExist\<close> and \<^verbatim>\<open>err.Error()\<close> only:
  an error is either a "does not exist" error or any other failure, each with its message.
\<close>

datatype error = NotExist string | Failure string

fun Error :: "error \<Rightarrow> string" where
  "Error (NotExist m) = m"
| "Error (Failure m) = m"

fun os_IsNotExist :: "error \<Rightarrow> bool" where
  "os_IsNotExist (NotExist m) = True"
| "os_IsNotExist (Failure m) = False"

text \<open>\<^verbatim>\<open>fmt.Errorf(prefix + "%s", err.Error())\<close>: a new error whose message ends with the cause's.\<close>

definition fmt_Errorf :: "string \<Rightarrow> error \<Rightarrow> error" where
  "fmt_Errorf msg err = Failure (msg @ Error err)"

subsection \<open>The world: file system, clock, environment, layer store\<close>

text \<open>
  A path is the list of its components, \<^verbatim>\<open>filepath.Join\<close> appends. The file system is an
  association list from paths to nodes, read through \<open>map_of\<close> (the first entry of a path
  is the live one).
\<close>

type_synonym path = "string list"

datatype node = File "byte list" | Dir

type_synonym filesystem = "(path \<times> node) list"

definition filepath_Join :: "path \<Rightarrow> string \<Rightarrow> path" where
  "filepath_Join dir name = dir @ [name]"

definition path_string :: "path \<Rightarrow> string" where
  "path_string p = concat (map (\<lambda>c. CHR ''/'' # c) p)"

record Metadata =
  Name :: string
  Hash :: string

datatype Flag = layers_Build | layers_Cache | layers_Launch

record Process =
  Type :: string
  Command :: string
  Direct :: bool

datatype env_entry = Override string string | AppendPath string string

text \<open>
  Every call that leaves the process is recorded, in order: the operating system's, the
  helpers' of libcfbuildpack, the layer store's and the package manager's.
\<close>

datatype syscall =
    Stat path
  | ReadDir path
  | ReadFile path
  | MkdirAll path
  | RemoveAll path
  | CopyDirectory path path
  | Setenv string string
  | PM_Install path path path
  | PM_Rebuild path path
  | PM_WarnUnmetDependencies path
  | Layer_Contribute_call path Metadata "Flag list"
  | OverrideSharedEnv_call path string string
  | AppendPathSharedEnv_call path string string
  | WriteApplicationMetadata_call "Process list"

record world =
  fs :: filesystem
  now :: "nat \<Rightarrow> 64 word"
  ticks :: nat
  environ :: "(string \<times> string) list"
  logged :: "string list"
  calls :: "syscall list"
  failing :: "nat \<Rightarrow> string option"
  layer_toml :: "path \<Rightarrow> (Metadata \<times> Flag list) option"
  shared_env :: "(path \<times> env_entry) list"
  app_metadata :: "Process list option"

text \<open>
  \<open>now w\<close> lists the readings that successive calls of \<^verbatim>\<open>time.Now().UnixNano()\<close> return and
  \<open>ticks w\<close> counts the readings taken. \<open>failing w n\<close> is the failure, if any, that the
  environment inflicts on the \<open>n\<close>-th recorded call (permissions, a full disk), with its
  message: it makes every error return of the source a branch that some world takes. Such
  a failure is never a "does not exist" error, which a call reports only of a path that
  the file system does not have.
\<close>

definition record_call :: "syscall \<Rightarrow> world \<Rightarrow> world" where
  "record_call c w = w\<lparr>calls := calls w @ [c]\<rparr>"

definition fault :: "world \<Rightarrow> error option" where
  "fault w = map_option Failure (failing w (length (calls w)))"

definition time_Now_UnixNano :: "world \<Rightarrow> 64 word \<times> world" where
  "time_Now_UnixNano w = (now w (ticks w), w\<lparr>ticks := Suc (ticks w)\<rparr>)"

definition Logger_Info :: "string \<Rightarrow> world \<Rightarrow> world" where
  "Logger_Info msg w = w\<lparr>logged := logged w @ [msg]\<rparr>"

definition os_Stat :: "path \<Rightarrow> world \<Rightarrow> (error + node) \<times> world" where
  "os_Stat p w =
     (let w' = record_call (Stat p) w
      in case fault w of
           Some e \<Rightarrow> (Inl e, w')
         | None \<Rightarrow>
             (case map_of (fs w) p of
                None \<Rightarrow> (Inl (NotExist (''stat '' @ path_string p @ '': no such file or directory'')), w')
              | Some n \<Rightarrow> (Inr n, w')))"

text \<open>The entries of a directory: the live nodes one component below it.\<close>

definition children :: "filesystem \<Rightarrow> path \<Rightarrow> (string \<times> node) list" where
  "children t p =
     map (\<lambda>(q, n). (last q, n))
       (filter (\<lambda>(q, n). q \<noteq> [] \<and> butlast q = p \<and> map_of t q = Some n) t)"

definition ioutil_ReadDir :: "path \<Rightarrow> world \<Rightarrow> (error + (string \<times> node) list) \<times> world" where
  "ioutil_ReadDir p w =
     (let w' = record_call (ReadDir p) w
      in case fault w of
           Some e \<Rightarrow> (Inl e, w')
         | None \<Rightarrow>
             (case map_of (fs w) p of
                None \<Rightarrow> (Inl (NotExist (''open '' @ path_string p @ '': no such file or directory'')), w')
              | Some (File bs) \<Rightarrow> (Inl (Failure (''readdirent '' @ path_string p @ '': not a directory'')), w')
              | Some Dir \<Rightarrow> (Inr (children (fs w) p), w')))"

definition ioutil_ReadFile :: "path \<Rightarrow> world \<Rightarrow> (error + byte list) \<times> world" where
  "ioutil_ReadFile p w =
     (let w' = record_call (ReadFile p) w
      in case fault w of
           Some e \<Rightarrow> (Inl e, w')
         | None \<Rightarrow>
             (case map_of (fs w) p of
                None \<Rightarrow> (Inl (NotExist (''open '' @ path_string p @ '': no such file or directory'')), w')
              | Some Dir \<Rightarrow> (Inl (Failure (''read '' @ path_string p @ '': is a directory'')), w')
              | Some (File bs) \<Rightarrow> (Inr bs, w')))"

definition os_RemoveAll :: "path \<Rightarrow> world \<Rightarrow> error option \<times> world" where
  "os_RemoveAll p w =
     (let w' = record_call (RemoveAll p) w
      in case fault w of
           Some e \<Rightarrow> (Some e, w')
         | None \<Rightarrow> (None, w'\<lparr>fs := filter (\<lambda>(q, n). \<not> prefix p q) (fs w)\<rparr>))"

definition os_MkdirAll :: "path \<Rightarrow> world \<Rightarrow> error option \<times> world" where
  "os_MkdirAll p w =
     (let w' = record_call (MkdirAll p) w
      in case fault w of
           Some e \<Rightarrow> (Some e, w')
         | None \<Rightarrow>
             (if list_ex (\<lambda>q. case map_of (fs w) q of Some (File bs) \<Rightarrow> True | _ \<Rightarrow> False) (prefixes p)
              then (Some (Failure (''mkdir '' @ path_string p @ '': not a directory'')), w')
              else (None, w'\<lparr>fs := map (\<lambda>q. (q, Dir)) (filter (\<lambda>q. map_of (fs w) q = None) (prefixes p))
                                     @ fs w\<rparr>)))"

definition os_Setenv :: "string \<Rightarrow> string \<Rightarrow> world \<Rightarrow> error option \<times> world" where
  "os_Setenv k v w =
     (let w' = record_call (Setenv k v) w
      in case fault w of
           Some e \<Rightarrow> (Some e, w')
         | None \<Rightarrow> (None, w'\<lparr>environ := (k, v) # environ w\<rparr>))"

subsection \<open>The helpers and the layer store of libcfbuildpack\<close>

text \<open>
  \<^verbatim>\<open>helper.FileExists\<close>: a stat whose "does not exist" error means \<open>false\<close>; any other error
  is returned.
\<close>

definition helper_FileExists :: "path \<Rightarrow> world \<Rightarrow> (error + bool) \<times> world" where
  "helper_FileExists file w =
     (case os_Stat file w of
        (Inl err, w') \<Rightarrow> (if os_IsNotExist err then (Inr False, w') else (Inl err, w'))
      | (Inr n, w') \<Rightarrow> (Inr True, w'))"

text \<open>
  \<^verbatim>\<open>helper.CopyDirectory\<close> and \<^verbatim>\<open>helper.CopyFile\<close> of libcfbuildpack. CopyDirectory lists
  the source (sorted by name), descends into each directory of the listing and copies
  each regular file with CopyFile; CopyFile makes the parent directories of its
  destination (\<^verbatim>\<open>os.MkdirAll\<close>) and then writes the file. So a directory appears at the
  destination only as an ancestor of a copied file: an empty directory is not copied, and
  copying an empty source creates nothing, not even the destination.

  \<open>reached t src q\<close>: the walk from \<open>src\<close> gets to \<open>q\<close>, that is, \<open>q\<close> is below \<open>src\<close>
  and every path from \<open>src\<close> down to the parent of \<open>q\<close> is a directory. \<open>files_below\<close>
  lists the regular files the walk copies, each with its path relative to the source, in
  the order of the walk, which is the lexicographic order of the relative paths. The
  files are read from the file system as it is when the copy starts.
\<close>

definition reached :: "filesystem \<Rightarrow> path \<Rightarrow> path \<Rightarrow> bool" where
  "reached t src q =
     (strict_prefix src q \<and>
      list_all (\<lambda>p. map_of t p = Some Dir) (filter (prefix src) (prefixes (butlast q))))"

definition files_below :: "filesystem \<Rightarrow> path \<Rightarrow> (path \<times> byte list) list" where
  "files_below t src =
     sort_key fst
       (remdups
          (concat
             (map (\<lambda>(q, n). case n of
                               File bs \<Rightarrow>
                                 (if reached t src q \<and> map_of t q = Some (File bs)
                                  then [(drop (length src) q, bs)] else [])
                             | Dir \<Rightarrow> [])
                t)))"

definition helper_CopyFile :: "path \<Rightarrow> byte list \<Rightarrow> filesystem \<Rightarrow> error option \<times> filesystem" where
  "helper_CopyFile destination bs t =
     (if list_ex (\<lambda>q. case map_of t q of Some (File x) \<Rightarrow> True | _ \<Rightarrow> False)
           (prefixes (butlast destination))
      then (Some (Failure (''mkdir '' @ path_string (butlast destination) @ '': not a directory'')), t)
      else
        (let t1 = map (\<lambda>q. (q, Dir)) (filter (\<lambda>q. map_of t q = None) (prefixes (butlast destination)))
                    @ t
         in case map_of t1 destination of
              Some Dir \<Rightarrow>
                (Some (Failure (''open '' @ path_string destination @ '': is a directory'')), t1)
            | _ \<Rightarrow> (None, (destination, File bs) # t1)))"

text \<open>The loop over the files: it stops at the first copy that fails and keeps the earlier ones.\<close>

fun copy_files :: "path \<Rightarrow> (path \<times> byte list) list \<Rightarrow> filesystem \<Rightarrow> error option \<times> filesystem" where
  "copy_files destination [] t = (None, t)"
| "copy_files destination (f # files) t =
     (case helper_CopyFile (destination @ fst f) (snd f) t of
        (Some err, t') \<Rightarrow> (Some err, t')
      | (None, t') \<Rightarrow> copy_files destination files t')"

definition helper_CopyDirectory :: "path \<Rightarrow> path \<Rightarrow> world \<Rightarrow> error option \<times> world" where
  "helper_CopyDirectory source destination w =
     (let w' = record_call (CopyDirectory source destination) w
      in case fault w of
           Some e \<Rightarrow> (Some e, w')
         | None \<Rightarrow>
             (case map_of (fs w) source of
                None \<Rightarrow> (Some (NotExist (''open '' @ path_string source @ '': no such file or directory'')), w')
              | Some (File bs) \<Rightarrow>
                  (Some (Failure (''readdirent '' @ path_string source @ '': not a directory'')), w')
              | Some Dir \<Rightarrow>
                  (case copy_files destination (files_below (fs w) source) (fs w) of
                     (r, t') \<Rightarrow> (r, w'\<lparr>fs := t'\<rparr>))))"

text \<open>A layer is a handle on a root directory; \<^verbatim>\<open>Layers.Layer(name)\<close> makes one below the layers' root.\<close>

record Layer =
  Root :: path

record Layers =
  LayersRoot :: path

definition Layers_Layer :: "Layers \<Rightarrow> string \<Rightarrow> Layer" where
  "Layers_Layer ls name = \<lparr>Root = filepath_Join (LayersRoot ls) name\<rparr>"

text \<open>
  Modelled from the spec: \<^verbatim>\<open>Layer.Contribute\<close> of libcfbuildpack, whose code is not part of
  the sources. "Contribute(fingerprint, contributionFunction, purposeFlags...) -> error:
  invokes contributionFunction(layer) only on fingerprint mismatch; persists the supplied
  fingerprint on success." On a match only the record's flags are rewritten. The store can
  fail by itself (its record cannot be read), which is the injected failure of the call.
\<close>

definition Layer_Contribute ::
  "Layer \<Rightarrow> Metadata \<Rightarrow> (Layer \<Rightarrow> world \<Rightarrow> error option \<times> world) \<Rightarrow> Flag list \<Rightarrow> world
     \<Rightarrow> error option \<times> world" where
  "Layer_Contribute l expected contributor flags w =
     (let w1 = record_call (Layer_Contribute_call (Root l) expected flags) w
      in case fault w of
           Some e \<Rightarrow> (Some e, w1)
         | None \<Rightarrow>
             (if map_option fst (layer_toml w (Root l)) = Some expected
              then (None, w1\<lparr>layer_toml := (layer_toml w1)(Root l \<mapsto> (expected, flags))\<rparr>)
              else (case contributor l w1 of
                      (Some err, w2) \<Rightarrow> (Some err, w2)
                    | (None, w2) \<Rightarrow>
                        (None, w2\<lparr>layer_toml := (layer_toml w2)(Root l \<mapsto> (expected, flags))\<rparr>))))"

text \<open>
  \<^verbatim>\<open>Layer.OverrideSharedEnv\<close>, \<^verbatim>\<open>Layer.AppendPathSharedEnv\<close> and
  \<^verbatim>\<open>Layers.WriteApplicationMetadata\<close>: each records what it was given, or fails.
\<close>

definition Layer_OverrideSharedEnv :: "Layer \<Rightarrow> string \<Rightarrow> path \<Rightarrow> world \<Rightarrow> error option \<times> world" where
  "Layer_OverrideSharedEnv l name v w =
     (let w' = record_call (OverrideSharedEnv_call (Root l) name (path_string v)) w
      in case fault w of
           Some e \<Rightarrow> (Some e, w')
         | None \<Rightarrow> (None, w'\<lparr>shared_env := shared_env w @ [(Root l, Override name (path_string v))]\<rparr>))"

definition Layer_AppendPathSharedEnv :: "Layer \<Rightarrow> string \<Rightarrow> path \<Rightarrow> world \<Rightarrow> error option \<times> world" where
  "Layer_AppendPathSharedEnv l name v w =
     (let w' = record_call (AppendPathSharedEnv_call (Root l) name (path_string v)) w
      in case fault w of
           Some e \<Rightarrow> (Some e, w')
         | None \<Rightarrow> (None, w'\<lparr>shared_env := shared_env w @ [(Root l, AppendPath name (path_string v))]\<rparr>))"

definition Layers_WriteApplicationMetadata :: "Layers \<Rightarrow> Process list \<Rightarrow> world \<Rightarrow> error option \<times> world" where
  "Layers_WriteApplicationMetadata ls processes w =
     (let w' = record_call (WriteApplicationMetadata_call processes) w
      in case fault w of
           Some e \<Rightarrow> (Some e, w')
         | None \<Rightarrow> (None, w'\<lparr>app_metadata := Some processes\<rparr>))"

subsection \<open>The package manager (modules.go, lines 30-34)\<close>

text \<open>
  The interface \<^verbatim>\<open>PackageManager\<close> is injected. An implementation runs a subprocess: it
  changes the file system as it likes, prints what it likes (its findings) and returns
  an error or none.
\<close>

type_synonym pm_result = "filesystem \<times> string list \<times> error option"

record PackageManager =
  Install :: "path \<Rightarrow> path \<Rightarrow> path \<Rightarrow> filesystem \<Rightarrow> pm_result"
  Rebuild :: "path \<Rightarrow> path \<Rightarrow> filesystem \<Rightarrow> pm_result"
  WarnUnmetDependencies :: "path \<Rightarrow> filesystem \<Rightarrow> pm_result"

definition ran :: "syscall \<Rightarrow> pm_result \<Rightarrow> world \<Rightarrow> error option \<times> world" where
  "ran c r w =
     (case r of (t, out, err) \<Rightarrow> (err, (record_call c w)\<lparr>fs := t, logged := logged w @ out\<rparr>))"

definition pm_Install :: "PackageManager \<Rightarrow> path \<Rightarrow> path \<Rightarrow> path \<Rightarrow> world \<Rightarrow> error option \<times> world" where
  "pm_Install pm layerRoot cacheRoot appRoot w =
     ran (PM_Install layerRoot cacheRoot appRoot) (Install pm layerRoot cacheRoot appRoot (fs w)) w"

definition pm_Rebuild :: "PackageManager \<Rightarrow> path \<Rightarrow> path \<Rightarrow> world \<Rightarrow> error option \<times> world" where
  "pm_Rebuild pm cacheRoot appRoot w =
     ran (PM_Rebuild cacheRoot appRoot) (Rebuild pm cacheRoot appRoot (fs w)) w"

definition pm_WarnUnmetDependencies :: "PackageManager \<Rightarrow> path \<Rightarrow> world \<Rightarrow> error option \<times> world" where
  "pm_WarnUnmetDependencies pm appRoot w =
     ran (PM_WarnUnmetDependencies appRoot) (WarnUnmetDependencies pm appRoot (fs w)) w"

subsection \<open>The build context\<close>

text \<open>
  The values of a build plan entry's metadata are TOML values (Go's \<^verbatim>\<open>interface{}\<close>).
  \<^verbatim>\<open>Plans.GetShallowMerged\<close> is libcfbuildpack's; the context carries its three results
  (plan, presence, error) for each dependency key.
\<close>

datatype toml = TBool bool | TString string | TInt int | TArray "toml list"

record Plan =
  Version :: string
  PlanMetadata :: "string \<Rightarrow> toml option"

record Application =
  AppRoot :: path

record Build =
  Application :: Application
  Layers :: Layers
  GetShallowMerged :: "string \<Rightarrow> Plan \<times> bool \<times> error option"

text \<open>The type assertion \<^verbatim>\<open>v.(bool)\<close> in its two-result form: the value and whether it held.\<close>

fun as_bool :: "toml option \<Rightarrow> bool \<times> bool" where
  "as_bool (Some (TBool b)) = (b, True)"
| "as_bool _ = (False, False)"

subsection \<open>The contributor (modules.go, lines 49-242)\<close>

record Contributor =
  NodeModulesMetadata :: Metadata
  NPMCacheMetadata :: Metadata
  buildContribution :: bool
  launchContribution :: bool
  pkgManager :: PackageManager
  app :: Application
  nodeModulesLayer :: Layer
  npmCacheLayer :: Layer
  launch :: Layers

text \<open>\<^verbatim>\<open>Metadata.Identity\<close> (lines 45-47).\<close>

definition Identity :: "Metadata \<Rightarrow> string \<times> string" where
  "Identity m = (Name m, Hash m)"

text \<open>
  \<^verbatim>\<open>setLayersMetadata\<close> (lines 224-242). The receiver is a pointer: the updated contributor
  is returned beside the error. The clock is read twice, once for each layer.
\<close>

definition setLayersMetadata :: "Contributor \<Rightarrow> world \<Rightarrow> error option \<times> Contributor \<times> world" where
  "setLayersMetadata c w =
     (case time_Now_UnixNano w of (t1, w1) \<Rightarrow>
      case time_Now_UnixNano w1 of (t2, w2) \<Rightarrow>
        (let c2 = c\<lparr>NodeModulesMetadata := \<lparr>Name = ModulesMetaName, Hash = FormatInt16 t1\<rparr>,
                     NPMCacheMetadata := \<lparr>Name = CacheMetaName, Hash = FormatInt16 t2\<rparr>\<rparr>
         in case helper_FileExists (filepath_Join (AppRoot (app c)) PackageLock) w2 of
              (Inl err, w3) \<Rightarrow> (Some err, c2, w3)
            | (Inr exists, w3) \<Rightarrow>
                (if exists
                 then (case ioutil_ReadFile (filepath_Join (AppRoot (app c)) PackageLock) w3 of
                         (Inl err, w4) \<Rightarrow> (Some err, c2, w4)
                       | (Inr out, w4) \<Rightarrow>
                           (let hash = sha256_Sum256 out
                            in (None,
                                c2\<lparr>NodeModulesMetadata :=
                                      \<lparr>Name = ModulesMetaName, Hash = hex_EncodeToString hash\<rparr>,
                                    NPMCacheMetadata :=
                                      \<lparr>Name = CacheMetaName, Hash = hex_EncodeToString hash\<rparr>\<rparr>,
                                w4)))
                 else (None, c2, w3))))"

text \<open>
  \<^verbatim>\<open>NewContributor\<close> (lines 61-87). The zero value \<^verbatim>\<open>Contributor{}\<close> of the failing and of the
  inert return is \<open>None\<close>.
\<close>

definition NewContributor ::
  "Build \<Rightarrow> PackageManager \<Rightarrow> world \<Rightarrow> (Contributor option \<times> bool \<times> error option) \<times> world" where
  "NewContributor context pm w =
     (case GetShallowMerged context Dependency of (plan, wantDependency, err) \<Rightarrow>
        (case err of
           Some e \<Rightarrow> ((None, False, Some e), w)
         | None \<Rightarrow>
             (if \<not> wantDependency then ((None, False, None), w)
              else
                (let contributor =
                       \<lparr>NodeModulesMetadata = \<lparr>Name = [], Hash = []\<rparr>,
                        NPMCacheMetadata = \<lparr>Name = [], Hash = []\<rparr>,
                        buildContribution = False,
                        launchContribution = False,
                        pkgManager = pm,
                        app = Application context,
                        nodeModulesLayer = Layers_Layer (Layers context) Dependency,
                        npmCacheLayer = Layers_Layer (Layers context) Cache,
                        launch = Layers context\<rparr>
                 in case setLayersMetadata contributor w of
                      (Some e, c', w') \<Rightarrow> ((None, False, Some e), w')
                    | (None, c', w') \<Rightarrow>
                        ((Some (c'\<lparr>buildContribution := fst (as_bool (PlanMetadata plan ''build'')),
                                    launchContribution := fst (as_bool (PlanMetadata plan ''launch''))\<rparr>),
                          True, None), w')))))"

text \<open>\<^verbatim>\<open>flags\<close> (lines 210-222).\<close>

definition flags :: "Contributor \<Rightarrow> Flag list" where
  "flags c =
     (let flags0 = [layers_Cache];
          flags1 = (if buildContribution c then flags0 @ [layers_Build] else flags0);
          flags2 = (if launchContribution c then flags1 @ [layers_Launch] else flags1)
      in flags2)"

text \<open>\<^verbatim>\<open>hasSubdirs\<close> (lines 166-183); the loop over the entries is \<open>any_IsDir\<close>.\<close>

fun IsDir :: "node \<Rightarrow> bool" where
  "IsDir Dir = True"
| "IsDir (File bs) = False"

fun any_IsDir :: "(string \<times> node) list \<Rightarrow> bool" where
  "any_IsDir [] = False"
| "any_IsDir (file # files) = (if IsDir (snd file) then True else any_IsDir files)"

definition hasSubdirs :: "path \<Rightarrow> world \<Rightarrow> (bool \<times> error option) \<times> world" where
  "hasSubdirs p w =
     (case ioutil_ReadDir p w of
        (Inl err, w') \<Rightarrow>
          (if os_IsNotExist err then ((False, None), w') else ((False, Some err), w'))
      | (Inr files, w') \<Rightarrow> ((any_IsDir files, None), w'))"

text \<open>\<^verbatim>\<open>tipVendorDependencies\<close> (lines 154-164).\<close>

definition tipVendorDependencies :: "Contributor \<Rightarrow> path \<Rightarrow> world \<Rightarrow> error option \<times> world" where
  "tipVendorDependencies c nodeModules w =
     (case hasSubdirs nodeModules w of
        ((subdirs, Some err), w') \<Rightarrow> (Some err, w')
      | ((subdirs, None), w') \<Rightarrow>
          (if \<not> subdirs
           then (None, Logger_Info ''It is recommended to vendor the application's Node.js dependencies'' w')
           else (None, w')))"

text \<open>
  \<^verbatim>\<open>contributeNodeModules\<close> (lines 100-152). Each early return of the source is a branch that
  returns the error and the world as it is at that point.
\<close>

definition contributeNodeModules :: "Contributor \<Rightarrow> Layer \<Rightarrow> world \<Rightarrow> error option \<times> world" where
  "contributeNodeModules c layer w =
     (let nodeModules = filepath_Join (AppRoot (app c)) ModulesDir
      in case tipVendorDependencies c nodeModules w of
           (Some err, w1) \<Rightarrow> (Some err, w1)
         | (None, w1) \<Rightarrow>
       (case helper_FileExists nodeModules w1 of
           (Inl err, w2) \<Rightarrow> (Some (fmt_Errorf ''unable to stat node_modules: '' err), w2)
         | (Inr vendored, w2) \<Rightarrow>
       (case (if vendored
              then (case pm_Rebuild (pkgManager c) (Root (npmCacheLayer c)) (AppRoot (app c))
                           (Logger_Info ''Rebuilding node_modules'' w2) of
                      (Some err, w3) \<Rightarrow> (Some (fmt_Errorf ''unable to rebuild node_modules: '' err), w3)
                    | (None, w3) \<Rightarrow> (None, w3))
              else (case pm_Install (pkgManager c) (Root layer) (Root (npmCacheLayer c)) (AppRoot (app c))
                           (Logger_Info ''Installing node_modules'' w2) of
                      (Some err, w3) \<Rightarrow> (Some (fmt_Errorf ''unable to install node_modules: '' err), w3)
                    | (None, w3) \<Rightarrow> (None, w3))) of
           (Some err, w3) \<Rightarrow> (Some err, w3)
         | (None, w3) \<Rightarrow>
       (case helper_FileExists nodeModules w3 of
           (Inl err, w4) \<Rightarrow> (Some (fmt_Errorf ''unable to stat node_modules: '' err), w4)
         | (Inr nodeModulesExist, w4) \<Rightarrow>
       (case (if nodeModulesExist
              then (case helper_CopyDirectory nodeModules (filepath_Join (Root layer) ModulesDir) w4 of
                      (Some err, w5) \<Rightarrow>
                        (Some (fmt_Errorf (''unable to copy \"'' @ path_string nodeModules @ ''\" to \"''
                                             @ path_string (Root layer) @ ''\": '') err), w5)
                    | (None, w5) \<Rightarrow>
                        (case os_RemoveAll nodeModules w5 of
                           (Some err, w6) \<Rightarrow>
                             (Some (fmt_Errorf ''unable to remove node_modules from the app dir: '' err), w6)
                         | (None, w6) \<Rightarrow> (None, w6)))
              else (None, w4)) of
           (Some err, w6) \<Rightarrow> (Some err, w6)
         | (None, w6) \<Rightarrow>
       (case os_Setenv ''NODE_VERBOSE'' ''true'' w6 of
           (Some err, w7) \<Rightarrow> (Some (Failure ''unable to set NODE_VERBOSE to true''), w7)
         | (None, w7) \<Rightarrow>
       (case pm_WarnUnmetDependencies (pkgManager c) (AppRoot (app c)) w7 of
           (Some err, w8) \<Rightarrow> (Some (fmt_Errorf ''failed to check unmet dependencies: '' err), w8)
         | (None, w8) \<Rightarrow>
       (case Layer_OverrideSharedEnv layer ''NODE_PATH'' (filepath_Join (Root layer) ModulesDir) w8 of
           (Some err, w9) \<Rightarrow> (Some err, w9)
         | (None, w9) \<Rightarrow>
             Layer_AppendPathSharedEnv layer ''PATH''
               (filepath_Join (filepath_Join (Root layer) ModulesDir) ''.bin'') w9))))))))"

text \<open>\<^verbatim>\<open>contributeNPMCache\<close> (lines 185-208).\<close>

definition contributeNPMCache :: "Contributor \<Rightarrow> Layer \<Rightarrow> world \<Rightarrow> error option \<times> world" where
  "contributeNPMCache c layer w =
     (case os_MkdirAll (Root layer) w of
        (Some err, w1) \<Rightarrow> (Some (fmt_Errorf ''unable make npm cache layer: '' err), w1)
      | (None, w1) \<Rightarrow>
          (let npmCache = filepath_Join (AppRoot (app c)) CacheDir
           in case helper_FileExists npmCache w1 of
                (Inl err, w2) \<Rightarrow> (Some err, w2)
              | (Inr npmCacheExists, w2) \<Rightarrow>
                  (if npmCacheExists
                   then (case helper_CopyDirectory npmCache (filepath_Join (Root layer) CacheDir) w2 of
                           (Some err, w3) \<Rightarrow>
                             (Some (fmt_Errorf (''unable to copy \"'' @ path_string npmCache @ ''\" to \"''
                                                  @ path_string (Root layer) @ ''\": '') err), w3)
                         | (None, w3) \<Rightarrow>
                             (case os_RemoveAll npmCache w3 of
                                (Some err, w4) \<Rightarrow>
                                  (Some (fmt_Errorf ''unable to remove existing npm-cache: '' err), w4)
                              | (None, w4) \<Rightarrow> (None, w4)))
                   else (None, w2))))"

text \<open>\<^verbatim>\<open>Contribute\<close> (lines 89-98).\<close>

definition Contribute :: "Contributor \<Rightarrow> world \<Rightarrow> error option \<times> world" where
  "Contribute c w =
     (case Layer_Contribute (nodeModulesLayer c) (NodeModulesMetadata c) (contributeNodeModules c)
             (flags c) w of
        (Some err, w1) \<Rightarrow> (Some err, w1)
      | (None, w1) \<Rightarrow>
          (case Layer_Contribute (npmCacheLayer c) (NPMCacheMetadata c) (contributeNPMCache c)
                  [layers_Cache] w1 of
             (Some err, w2) \<Rightarrow> (Some err, w2)
           | (None, w2) \<Rightarrow>
               Layers_WriteApplicationMetadata (launch c)
                 [\<lparr>Type = ''web'', Command = ''npm start'', Direct = False\<rparr>] w2))"

subsection \<open>The calls of a run and the three blocks of contributeNodeModules\<close>

text \<open>The calls recorded between an earlier world and a later one.\<close>

definition made :: "world \<Rightarrow> world \<Rightarrow> syscall list" where
  "made w w' = drop (length (calls w)) (calls w')"


text \<open>
  Sequencing with early return: \<^verbatim>\<open>if err := f(); err != nil { return err }; g()\<close>.
  \<^verbatim>\<open>contributeNodeModules\<close> is three such blocks in a row: the choice between rebuild and
  install (lines 101-122), the relocation (lines 124-137), and the check with the export
  of the environment (lines 139-151). They are defined here to state properties of each;
  \<open>contributeNodeModules_stages\<close> below proves that the function is their sequence.
\<close>

definition andThen ::
  "(world \<Rightarrow> error option \<times> world) \<Rightarrow> (world \<Rightarrow> error option \<times> world) \<Rightarrow> world \<Rightarrow> error option \<times> world" where
  "andThen f g w = (case f w of (Some err, w') \<Rightarrow> (Some err, w') | (None, w') \<Rightarrow> g w')"

definition installOrRebuild :: "Contributor \<Rightarrow> Layer \<Rightarrow> world \<Rightarrow> error option \<times> world" where
  "installOrRebuild c layer w =
     (let nodeModules = filepath_Join (AppRoot (app c)) ModulesDir
      in case tipVendorDependencies c nodeModules w of
           (Some err, w1) \<Rightarrow> (Some err, w1)
         | (None, w1) \<Rightarrow>
       (case helper_FileExists nodeModules w1 of
           (Inl err, w2) \<Rightarrow> (Some (fmt_Errorf ''unable to stat node_modules: '' err), w2)
         | (Inr vendored, w2) \<Rightarrow>
             (if vendored
              then (case pm_Rebuild (pkgManager c) (Root (npmCacheLayer c)) (AppRoot (app c))
                           (Logger_Info ''Rebuilding node_modules'' w2) of
                      (Some err, w3) \<Rightarrow> (Some (fmt_Errorf ''unable to rebuild node_modules: '' err), w3)
                    | (None, w3) \<Rightarrow> (None, w3))
              else (case pm_Install (pkgManager c) (Root layer) (Root (npmCacheLayer c)) (AppRoot (app c))
                           (Logger_Info ''Installing node_modules'' w2) of
                      (Some err, w3) \<Rightarrow> (Some (fmt_Errorf ''unable to install node_modules: '' err), w3)
                    | (None, w3) \<Rightarrow> (None, w3)))))"

definition relocate :: "Contributor \<Rightarrow> Layer \<Rightarrow> world \<Rightarrow> error option \<times> world" where
  "relocate c layer w3 =
     (let nodeModules = filepath_Join (AppRoot (app c)) ModulesDir
      in case helper_FileExists nodeModules w3 of
           (Inl err, w4) \<Rightarrow> (Some (fmt_Errorf ''unable to stat node_modules: '' err), w4)
         | (Inr nodeModulesExist, w4) \<Rightarrow>
             (if nodeModulesExist
              then (case helper_CopyDirectory nodeModules (filepath_Join (Root layer) ModulesDir) w4 of
                      (Some err, w5) \<Rightarrow>
                        (Some (fmt_Errorf (''unable to copy \"'' @ path_string nodeModules @ ''\" to \"''
                                             @ path_string (Root layer) @ ''\": '') err), w5)
                    | (None, w5) \<Rightarrow>
                        (case os_RemoveAll nodeModules w5 of
                           (Some err, w6) \<Rightarrow>
                             (Some (fmt_Errorf ''unable to remove node_modules from the app dir: '' err), w6)
                         | (None, w6) \<Rightarrow> (None, w6)))
              else (None, w4)))"

definition checkAndExport :: "Contributor \<Rightarrow> Layer \<Rightarrow> world \<Rightarrow> error option \<times> world" where
  "checkAndExport c layer w6 =
       (case os_Setenv ''NODE_VERBOSE'' ''true'' w6 of
           (Some err, w7) \<Rightarrow> (Some (Failure ''unable to set NODE_VERBOSE to true''), w7)
         | (None, w7) \<Rightarrow>
       (case pm_WarnUnmetDependencies (pkgManager c) (AppRoot (app c)) w7 of
           (Some err, w8) \<Rightarrow> (Some (fmt_Errorf ''failed to check unmet dependencies: '' err), w8)
         | (None, w8) \<Rightarrow>
       (case Layer_OverrideSharedEnv layer ''NODE_PATH'' (filepath_Join (Root layer) ModulesDir) w8 of
           (Some err, w9) \<Rightarrow> (Some err, w9)
         | (None, w9) \<Rightarrow>
             Layer_AppendPathSharedEnv layer ''PATH''
               (filepath_Join (filepath_Join (Root layer) ModulesDir) ''.bin'') w9)))"


text \<open>
  What a block leaves alone: it only appends calls, all of a given kind, and it changes
  neither the layer store's records, nor the failures to come, nor the application's
  metadata.
\<close>

definition step :: "(syscall \<Rightarrow> bool) \<Rightarrow> world \<Rightarrow> world \<Rightarrow> bool" where
  "step P w w' =
     ((\<exists>cs. calls w' = calls w @ cs \<and> list_all P cs) \<and> layer_toml w' = layer_toml w
       \<and> failing w' = failing w \<and> app_metadata w' = app_metadata w)"

definition appends :: "(syscall \<Rightarrow> bool) \<Rightarrow> (world \<Rightarrow> error option \<times> world) \<Rightarrow> bool" where
  "appends P f = (\<forall>w r w'. f w = (r, w') \<longrightarrow> step P w w')"

text \<open>Kinds of calls: those a contribution function makes, and the two that Contribute makes.\<close>

fun inner :: "syscall \<Rightarrow> bool" where
  "inner (Layer_Contribute_call p m fl) = False"
| "inner (WriteApplicationMetadata_call ps) = False"
| "inner c = True"

fun is_contribution :: "syscall \<Rightarrow> bool" where
  "is_contribution (Layer_Contribute_call p m fl) = True"
| "is_contribution c = False"

fun is_registration :: "syscall \<Rightarrow> bool" where
  "is_registration (WriteApplicationMetadata_call ps) = True"
| "is_registration c = False"

fun is_install_or_rebuild :: "syscall \<Rightarrow> bool" where
  "is_install_or_rebuild (PM_Install p q r) = True"
| "is_install_or_rebuild (PM_Rebuild p q) = True"
| "is_install_or_rebuild c = False"

subsection \<open>Example inputs\<close>

text \<open>
  An application at \<^verbatim>\<open>/workspace\<close> with layers at \<^verbatim>\<open>/layers\<close>; a package manager that does
  nothing and one that installs a module and prints a finding; worlds with a given file
  system and clock in which no call fails by itself.
\<close>

definition app_ws :: Application where
  "app_ws = \<lparr>AppRoot = [''workspace'']\<rparr>"

definition layers_ws :: Layers where
  "layers_ws = \<lparr>LayersRoot = [''layers'']\<rparr>"

definition pm_idle :: PackageManager where
  "pm_idle = \<lparr>Install = (\<lambda>layerRoot cacheRoot appRoot t. (t, [], None)),
               Rebuild = (\<lambda>cacheRoot appRoot t. (t, [], None)),
               WarnUnmetDependencies = (\<lambda>appRoot t. (t, [], None))\<rparr>"

definition pm_npm :: PackageManager where
  "pm_npm = \<lparr>Install = (\<lambda>layerRoot cacheRoot appRoot t.
                 ((appRoot @ [''node_modules''], Dir)
                    # (appRoot @ [''node_modules'', ''leftpad''], Dir)
                    # (appRoot @ [''node_modules'', ''leftpad'', ''index.js''], File [1, 2, 3])
                    # t, [], None)),
              Rebuild = (\<lambda>cacheRoot appRoot t. (t, [], None)),
              WarnUnmetDependencies = (\<lambda>appRoot t. (t, [''npm WARN unmet dependency''], None))\<rparr>"

definition pm_broken_check :: PackageManager where
  "pm_broken_check = pm_npm\<lparr>WarnUnmetDependencies :=
       (\<lambda>appRoot t. (t, [], Some (Failure ''exit status 1'')))\<rparr>"

definition world_of :: "filesystem \<Rightarrow> (nat \<Rightarrow> 64 word) \<Rightarrow> world" where
  "world_of t clock =
     \<lparr>fs = t, now = clock, ticks = 0, environ = [], logged = [], calls = [],
      failing = (\<lambda>n. None), layer_toml = (\<lambda>p. None), shared_env = [], app_metadata = None\<rparr>"

definition fs_locked :: filesystem where
  "fs_locked =
     [([''workspace''], Dir),
      ([''workspace'', ''package-lock.json''], File (bytes_of ''{\"name\":\"x\"}''))]"

definition fs_bare :: filesystem where
  "fs_bare = [([''workspace''], Dir), ([''workspace'', ''package.json''], File (bytes_of ''{}''))]"

definition fs_flat_modules :: filesystem where
  "fs_flat_modules =
     [([''workspace''], Dir),
      ([''workspace'', ''node_modules''], Dir),
      ([''workspace'', ''node_modules'', ''README''], File (bytes_of ''empty''))]"

definition fs_vendored :: filesystem where
  "fs_vendored =
     [([''workspace''], Dir),
      ([''workspace'', ''node_modules''], Dir),
      ([''workspace'', ''node_modules'', ''leftpad''], Dir),
      ([''workspace'', ''node_modules'', ''leftpad'', ''index.js''], File [1, 2, 3])]"

definition plan_of :: "(string \<Rightarrow> toml option) \<Rightarrow> string \<Rightarrow> Plan \<times> bool \<times> error option" where
  "plan_of md key =
     (if key = Dependency then (\<lparr>Version = [], PlanMetadata = md\<rparr>, True, None)
      else (\<lparr>Version = [], PlanMetadata = (\<lambda>k. None)\<rparr>, False, None))"

definition build_ws :: "(string \<Rightarrow> toml option) \<Rightarrow> Build" where
  "build_ws md = \<lparr>Application = app_ws, Layers = layers_ws, GetShallowMerged = plan_of md\<rparr>"

definition contributor_ws :: "PackageManager \<Rightarrow> Contributor" where
  "contributor_ws pm =
     \<lparr>NodeModulesMetadata = \<lparr>Name = ModulesMetaName, Hash = ''0''\<rparr>,
      NPMCacheMetadata = \<lparr>Name = CacheMetaName, Hash = ''0''\<rparr>,
      buildContribution = False,
      launchContribution = True,
      pkgManager = pm,
      app = app_ws,
      nodeModulesLayer = Layers_Layer layers_ws Dependency,
      npmCacheLayer = Layers_Layer layers_ws Cache,
      launch = layers_ws\<rparr>"

lemmas example_defs =
  app_ws_def layers_ws_def pm_idle_def pm_npm_def pm_broken_check_def world_of_def fs_locked_def
  fs_bare_def fs_flat_modules_def fs_vendored_def plan_of_def build_ws_def contributor_ws_def
  Layers_Layer_def filepath_Join_def Dependency_def Cache_def ModulesDir_def CacheDir_def
  PackageLock_def ModulesMetaName_def CacheMetaName_def






text \<open>The outcome and the file system of a stale contribution with the idle package manager.\<close>

definition contributeNodeModules_fs :: "filesystem \<Rightarrow> error option \<times> filesystem" where
  "contributeNodeModules_fs t =
     (case contributeNodeModules (contributor_ws pm_idle) (Layers_Layer layers_ws Dependency)
             (world_of t (\<lambda>n. 5)) of
        (r, w') \<Rightarrow> (r, fs w'))"

section \<open>Properties\<close>

subsection \<open>Hexadecimal text determines the number\<close>

lemma hexdigit_inj: "a < 16 \<Longrightarrow> b < 16 \<Longrightarrow> hexdigit a = hexdigit b \<Longrightarrow> a = b"
proof -
  assume a: "a < 16" and b: "b < 16" and e: "hexdigit a = hexdigit b"
  have d: "distinct digits" by (simp add: digits_def)
  have l: "length digits = 36" by (simp add: digits_def)
  from a b e have "digits ! a = digits ! b" by (simp add: hexdigit_def)
  with d l a b show "a = b" by (simp add: nth_eq_iff_index_eq)
qed

lemma hexdigit_in_digits: "hexdigit d \<in> set digits"
proof -
  have "d mod 16 < length digits" by (simp add: digits_def)
  then show ?thesis unfolding hexdigit_def by (rule nth_mem)
qed

lemma minus_not_digit: "CHR ''-'' \<notin> set digits"
  by (simp add: digits_def)

lemma drop_bit4_less: "16 \<le> (u :: 64 word) \<Longrightarrow> unat (drop_bit 4 u) < unat u"
proof -
  assume "16 \<le> u"
  then have "16 \<le> unat u" by (simp add: word_le_nat_alt)
  then have "unat u div 16 < unat u" by simp
  then show ?thesis by (simp add: drop_bit_eq_div unat_div)
qed

lemma formatBits16_acc: "formatBits16 u acc = formatBits16 u [] @ acc"
proof (induction "unat u" arbitrary: u acc rule: less_induct)
  case less
  show ?case
  proof (cases "16 \<le> u")
    case True
    let ?d = "hexdigit (unat (u AND 15))"
    have ih: "formatBits16 (drop_bit 4 u) a = formatBits16 (drop_bit 4 u) [] @ a" for a
      using less [OF drop_bit4_less [OF True]] .
    have "formatBits16 u acc = formatBits16 (drop_bit 4 u) (?d # acc)"
      using True by (simp add: formatBits16.simps [of u])
    also have "\<dots> = formatBits16 (drop_bit 4 u) [] @ ?d # acc"
      by (rule ih)
    also have "\<dots> = formatBits16 (drop_bit 4 u) [?d] @ acc"
      using ih [of "[?d]"] by simp
    also have "formatBits16 (drop_bit 4 u) [?d] = formatBits16 u []"
      using True by (simp add: formatBits16.simps [of u "[]"])
    finally show ?thesis .
  next
    case False
    then show ?thesis by (simp add: formatBits16.simps [of u])
  qed
qed

lemma formatBits16_step:
  "16 \<le> u \<Longrightarrow> formatBits16 u [] = formatBits16 (drop_bit 4 u) [] @ [hexdigit (unat (u AND 15))]"
  using formatBits16_acc [of "drop_bit 4 u" "[hexdigit (unat (u AND 15))]"]
  by (simp add: formatBits16.simps [of u "[]"])

lemma formatBits16_small: "\<not> 16 \<le> u \<Longrightarrow> formatBits16 u [] = [hexdigit (unat u)]"
  by (simp add: formatBits16.simps [of u "[]"])

lemma formatBits16_nonempty: "formatBits16 u [] \<noteq> []"
proof (cases "16 \<le> u")
  case True
  show ?thesis unfolding formatBits16_step [OF True] by simp
next
  case False
  show ?thesis unfolding formatBits16_small [OF False] by simp
qed

lemma formatBits16_digits: "set (formatBits16 u []) \<subseteq> set digits"
proof (induction "unat u" arbitrary: u rule: less_induct)
  case less
  show ?case
  proof (cases "16 \<le> u")
    case True
    with less [OF drop_bit4_less [OF True]] show ?thesis
      unfolding formatBits16_step [OF True] by (simp add: hexdigit_in_digits)
  next
    case False
    then show ?thesis by (simp add: formatBits16_small hexdigit_in_digits)
  qed
qed

lemma low4: "unat ((u :: 64 word) AND 15) = unat u mod 16"
proof -
  have "(15 :: 64 word) = mask 4" by (simp add: mask_eq_exp_minus_1)
  then have "u AND 15 = take_bit 4 u" by (simp add: take_bit_eq_mask)
  then show ?thesis by (simp add: take_bit_eq_mod unat_mod)
qed

lemma formatBits16_inj: "formatBits16 u [] = formatBits16 v [] \<Longrightarrow> u = v"
proof (induction "unat u" arbitrary: u v rule: less_induct)
  case less
  show ?case
  proof (cases "16 \<le> u")
    case u: True
    show ?thesis
    proof (cases "16 \<le> v")
      case v: True
      from less.prems
      have e: "formatBits16 (drop_bit 4 u) [] = formatBits16 (drop_bit 4 v) []"
        and d: "hexdigit (unat (u AND 15)) = hexdigit (unat (v AND 15))"
        unfolding formatBits16_step [OF u] formatBits16_step [OF v] by simp_all
      from less.hyps [OF drop_bit4_less [OF u] e] have hi: "drop_bit 4 u = drop_bit 4 v" .
      from d have lo: "unat u mod 16 = unat v mod 16"
        using hexdigit_inj [of "unat u mod 16" "unat v mod 16"] by (simp add: low4)
      from hi have "unat (drop_bit 4 u) = unat (drop_bit 4 v)" by simp
      then have "unat u div 16 = unat v div 16"
        by (simp add: drop_bit_eq_div unat_div)
      with lo have "unat u = unat v"
        by (metis div_mult_mod_eq)
      then show ?thesis by (rule word_unat_eq_iff [THEN iffD2])
    next
      case v: False
      from less.prems formatBits16_nonempty [of "drop_bit 4 u"] show ?thesis
        unfolding formatBits16_step [OF u] formatBits16_small [OF v] by simp
    qed
  next
    case u: False
    show ?thesis
    proof (cases "16 \<le> v")
      case v: True
      from less.prems formatBits16_nonempty [of "drop_bit 4 v"] show ?thesis
        unfolding formatBits16_step [OF v] formatBits16_small [OF u] by simp
    next
      case v: False
      from u v have "unat u < 16" "unat v < 16" by (simp_all add: word_le_nat_alt)
      with less.prems have "unat u = unat v"
        unfolding formatBits16_small [OF u] formatBits16_small [OF v]
        using hexdigit_inj [of "unat u" "unat v"] by simp
      then show ?thesis by (rule word_unat_eq_iff [THEN iffD2])
    qed
  qed
qed

lemma FormatInt16_inj: "FormatInt16 i = FormatInt16 j \<Longrightarrow> i = j"
proof -
  assume e: "FormatInt16 i = FormatInt16 j"
  have ne: "CHR ''-'' # xs \<noteq> formatBits16 u []" for u xs
  proof
    assume "CHR ''-'' # xs = formatBits16 u []"
    then have "CHR ''-'' \<in> set (formatBits16 u [])" by (metis list.set_intros(1))
    with formatBits16_digits [of u] minus_not_digit show False by blast
  qed
  show "i = j"
  proof (cases "sint i < 0"; cases "sint j < 0")
    assume "sint i < 0" "sint j < 0"
    with e have "formatBits16 (- i) [] = formatBits16 (- j) []" by (simp add: FormatInt16_def)
    then have "- i = - j" by (rule formatBits16_inj)
    then show ?thesis by simp
  next
    assume "sint i < 0" "\<not> sint j < 0"
    with e have "CHR ''-'' # formatBits16 (- i) [] = formatBits16 j []" by (simp add: FormatInt16_def)
    with ne show ?thesis by blast
  next
    assume "\<not> sint i < 0" "sint j < 0"
    with e have "CHR ''-'' # formatBits16 (- j) [] = formatBits16 i []" by (simp add: FormatInt16_def)
    with ne show ?thesis by blast
  next
    assume "\<not> sint i < 0" "\<not> sint j < 0"
    with e have "formatBits16 i [] = formatBits16 j []" by (simp add: FormatInt16_def)
    then show ?thesis by (rule formatBits16_inj)
  qed
qed


subsection \<open>The blocks\<close>

lemmas prim_defs =
  os_Stat_def ioutil_ReadDir_def ioutil_ReadFile_def os_RemoveAll_def os_MkdirAll_def os_Setenv_def
  helper_FileExists_def helper_CopyDirectory_def Layer_OverrideSharedEnv_def
  Layer_AppendPathSharedEnv_def Layers_WriteApplicationMetadata_def
  pm_Install_def pm_Rebuild_def pm_WarnUnmetDependencies_def ran_def
  record_call_def fault_def Logger_Info_def time_Now_UnixNano_def

lemma setLayersMetadata_lock:
  assumes "map_of (fs w) (filepath_Join (AppRoot (app c)) PackageLock) = Some (File bs)"
    and "failing w (length (calls w)) = None"
    and "failing w (Suc (length (calls w))) = None"
  shows "setLayersMetadata c w =
     (None,
      c\<lparr>NodeModulesMetadata := \<lparr>Name = ModulesMetaName, Hash = hex_EncodeToString (sha256_Sum256 bs)\<rparr>,
        NPMCacheMetadata := \<lparr>Name = CacheMetaName, Hash = hex_EncodeToString (sha256_Sum256 bs)\<rparr>\<rparr>,
      w\<lparr>ticks := Suc (Suc (ticks w)),
        calls := calls w @ [Stat (filepath_Join (AppRoot (app c)) PackageLock),
                            ReadFile (filepath_Join (AppRoot (app c)) PackageLock)]\<rparr>)"
  using assms by (simp add: setLayersMetadata_def prim_defs Let_def)

lemma setLayersMetadata_nolock:
  assumes "map_of (fs w) (filepath_Join (AppRoot (app c)) PackageLock) = None"
    and "failing w (length (calls w)) = None"
  shows "setLayersMetadata c w =
     (None,
      c\<lparr>NodeModulesMetadata := \<lparr>Name = ModulesMetaName, Hash = FormatInt16 (now w (ticks w))\<rparr>,
        NPMCacheMetadata := \<lparr>Name = CacheMetaName, Hash = FormatInt16 (now w (Suc (ticks w)))\<rparr>\<rparr>,
      w\<lparr>ticks := Suc (Suc (ticks w)),
        calls := calls w @ [Stat (filepath_Join (AppRoot (app c)) PackageLock)]\<rparr>)"
  using assms by (simp add: setLayersMetadata_def prim_defs Let_def)

lemma contributeNodeModules_stages:
  "contributeNodeModules c layer w =
     andThen (installOrRebuild c layer) (andThen (relocate c layer) (checkAndExport c layer)) w"
proof -
  let ?nm = "filepath_Join (AppRoot (app c)) ModulesDir"
  obtain r1 w1 where t: "tipVendorDependencies c ?nm w = (r1, w1)"
    by (cases "tipVendorDependencies c ?nm w")
  obtain r2 w2 where s: "helper_FileExists ?nm w1 = (r2, w2)"
    by (cases "helper_FileExists ?nm w1")
  obtain r3 w3 where b:
    "pm_Rebuild (pkgManager c) (Root (npmCacheLayer c)) (AppRoot (app c))
       (Logger_Info ''Rebuilding node_modules'' w2) = (r3, w3)"
    by (cases "pm_Rebuild (pkgManager c) (Root (npmCacheLayer c)) (AppRoot (app c))
       (Logger_Info ''Rebuilding node_modules'' w2)")
  obtain r3' w3' where i:
    "pm_Install (pkgManager c) (Root layer) (Root (npmCacheLayer c)) (AppRoot (app c))
       (Logger_Info ''Installing node_modules'' w2) = (r3', w3')"
    by (cases "pm_Install (pkgManager c) (Root layer) (Root (npmCacheLayer c)) (AppRoot (app c))
       (Logger_Info ''Installing node_modules'' w2)")
  show ?thesis
    unfolding contributeNodeModules_def installOrRebuild_def Let_def andThen_def [of "installOrRebuild c layer"]
    apply (simp only: t s b i split_conv)
    apply (cases r1; cases r2; cases r3; cases r3'; simp add: t s b i)
    apply (simp_all add: andThen_def relocate_def checkAndExport_def Let_def split: prod.split sum.split option.split)
    done
qed

subsection \<open>The fingerprint\<close>

lemma sha256_example:
  "hex_EncodeToString (sha256_Sum256 (bytes_of ''{\"name\":\"x\"}''))
     = ''0229d37e33daae149bf40543a5ce1db4459d10f830d5139279aa2bfd5f6485a1''"
  by code_simp

text \<open>
  C2. When the application root holds a lock file that can be read, the fingerprint of
  the dependency-tree layer is the pair of the label "Node Modules" and the hexadecimal
  SHA-256 digest of the file's bytes.
\<close>

theorem lock_file_fingerprint:
  assumes "map_of (fs w) (filepath_Join (AppRoot (app c)) PackageLock) = Some (File bs)"
    and "failing w (length (calls w)) = None"
    and "failing w (Suc (length (calls w))) = None"
  shows "\<exists>c' w'. setLayersMetadata c w = (None, c', w') \<and>
           Identity (NodeModulesMetadata c') = (''Node Modules'', hex_EncodeToString (sha256_Sum256 bs))"
  using setLayersMetadata_lock [OF assms] by (simp add: Identity_def ModulesMetaName_def)

theorem lock_file_fingerprint_witness:
  "\<exists>c' w'. setLayersMetadata (contributor_ws pm_idle) (world_of fs_locked (\<lambda>n. 1700000000)) = (None, c', w') \<and>
     Identity (NodeModulesMetadata c')
       = (''Node Modules'', ''0229d37e33daae149bf40543a5ce1db4459d10f830d5139279aa2bfd5f6485a1'')"
proof -
  let ?w = "world_of fs_locked (\<lambda>n. 1700000000)"
  let ?c = "contributor_ws pm_idle"
  have l: "map_of (fs ?w) (filepath_Join (AppRoot (app ?c)) PackageLock)
             = Some (File (bytes_of ''{\"name\":\"x\"}''))"
    by (simp add: example_defs)
  have f1: "failing ?w (length (calls ?w)) = None" by (simp add: example_defs)
  have f2: "failing ?w (Suc (length (calls ?w))) = None" by (simp add: example_defs)
  from lock_file_fingerprint [OF l f1 f2] show ?thesis
    by (simp only: sha256_example)
qed

text \<open>
  C3. The fingerprints computed from a readable lock file depend on the file's bytes
  only: two runs over the same bytes, whatever their clocks, contributors and worlds,
  give the same fingerprints for both layers.
\<close>

theorem lock_file_fingerprint_deterministic:
  assumes "map_of (fs w1) (filepath_Join (AppRoot (app c1)) PackageLock) = Some (File bs)"
    and "failing w1 (length (calls w1)) = None"
    and "failing w1 (Suc (length (calls w1))) = None"
    and "map_of (fs w2) (filepath_Join (AppRoot (app c2)) PackageLock) = Some (File bs)"
    and "failing w2 (length (calls w2)) = None"
    and "failing w2 (Suc (length (calls w2))) = None"
  shows "fst (setLayersMetadata c1 w1) = None \<and> fst (setLayersMetadata c2 w2) = None \<and>
         NodeModulesMetadata (fst (snd (setLayersMetadata c1 w1)))
           = NodeModulesMetadata (fst (snd (setLayersMetadata c2 w2))) \<and>
         NPMCacheMetadata (fst (snd (setLayersMetadata c1 w1)))
           = NPMCacheMetadata (fst (snd (setLayersMetadata c2 w2)))"
  using setLayersMetadata_lock [OF assms(1-3)] setLayersMetadata_lock [OF assms(4-6)] by simp

theorem lock_file_fingerprint_deterministic_witness:
  "NodeModulesMetadata (fst (snd (setLayersMetadata (contributor_ws pm_idle)
        (world_of fs_locked (\<lambda>n. 1700000000)))))
     = NodeModulesMetadata (fst (snd (setLayersMetadata (contributor_ws pm_npm)
        (world_of (fs_locked @ fs_vendored) (\<lambda>n. 1800000000 + of_nat n)))))"
proof -
  let ?w1 = "world_of fs_locked (\<lambda>n. 1700000000)"
  let ?w2 = "world_of (fs_locked @ fs_vendored) (\<lambda>n. 1800000000 + of_nat n)"
  let ?c1 = "contributor_ws pm_idle"
  let ?c2 = "contributor_ws pm_npm"
  have l1: "map_of (fs ?w1) (filepath_Join (AppRoot (app ?c1)) PackageLock)
             = Some (File (bytes_of ''{\"name\":\"x\"}''))"
    by (simp add: example_defs)
  have l2: "map_of (fs ?w2) (filepath_Join (AppRoot (app ?c2)) PackageLock)
             = Some (File (bytes_of ''{\"name\":\"x\"}''))"
    by (simp add: example_defs)
  have f: "failing ?w1 (length (calls ?w1)) = None" "failing ?w1 (Suc (length (calls ?w1))) = None"
    "failing ?w2 (length (calls ?w2)) = None" "failing ?w2 (Suc (length (calls ?w2))) = None"
    by (simp_all add: example_defs)
  from lock_file_fingerprint_deterministic [OF l1 f(1,2) l2 f(3,4)] show ?thesis by blast
qed

subsection \<open>What the blocks append to the record of calls\<close>

lemma step_refl: "step P w w"
  by (simp add: step_def)

lemma step_trans: "step P w w1 \<Longrightarrow> step P w1 w2 \<Longrightarrow> step P w w2"
proof -
  assume a: "step P w w1" and b: "step P w1 w2"
  from a obtain cs1 where c1: "calls w1 = calls w @ cs1" "list_all P cs1" by (auto simp: step_def)
  from b obtain cs2 where c2: "calls w2 = calls w1 @ cs2" "list_all P cs2" by (auto simp: step_def)
  from c1 c2 have "calls w2 = calls w @ (cs1 @ cs2) \<and> list_all P (cs1 @ cs2)" by simp
  then have "\<exists>cs. calls w2 = calls w @ cs \<and> list_all P cs" by blast
  with a b show ?thesis by (simp add: step_def)
qed

lemma step_call:
  assumes "P c" "calls w' = calls w @ [c]" "layer_toml w' = layer_toml w" "failing w' = failing w"
    "app_metadata w' = app_metadata w"
  shows "step P w w'"
  using assms by (simp add: step_def)

lemma Logger_Info_step: "step P w (Logger_Info msg w)"
  by (simp add: step_def Logger_Info_def)

lemma os_Stat_step: "os_Stat p w = (r, w') \<Longrightarrow> P (Stat p) \<Longrightarrow> step P w w'"
  by (rule step_call [of P "Stat p"])
    (auto simp: os_Stat_def record_call_def Let_def split: option.splits)

lemma helper_FileExists_step: "helper_FileExists p w = (r, w') \<Longrightarrow> P (Stat p) \<Longrightarrow> step P w w'"
  by (cases "os_Stat p w")
    (auto simp: helper_FileExists_def split: sum.splits if_splits dest: os_Stat_step)

lemma ioutil_ReadDir_step: "ioutil_ReadDir p w = (r, w') \<Longrightarrow> P (ReadDir p) \<Longrightarrow> step P w w'"
  by (rule step_call [of P "ReadDir p"])
    (auto simp: ioutil_ReadDir_def record_call_def Let_def split: option.splits node.splits)

lemma os_RemoveAll_step: "os_RemoveAll p w = (r, w') \<Longrightarrow> P (RemoveAll p) \<Longrightarrow> step P w w'"
  by (rule step_call [of P "RemoveAll p"])
    (auto simp: os_RemoveAll_def record_call_def Let_def split: option.splits)

lemma os_MkdirAll_step: "os_MkdirAll p w = (r, w') \<Longrightarrow> P (MkdirAll p) \<Longrightarrow> step P w w'"
  by (rule step_call [of P "MkdirAll p"])
    (auto simp: os_MkdirAll_def record_call_def Let_def split: option.splits if_splits)

lemma os_Setenv_step: "os_Setenv k v w = (r, w') \<Longrightarrow> P (Setenv k v) \<Longrightarrow> step P w w'"
  by (rule step_call [of P "Setenv k v"])
    (auto simp: os_Setenv_def record_call_def Let_def split: option.splits)

lemma helper_CopyDirectory_step:
  "helper_CopyDirectory p q w = (r, w') \<Longrightarrow> P (CopyDirectory p q) \<Longrightarrow> step P w w'"
  by (rule step_call [of P "CopyDirectory p q"])
    (auto simp: helper_CopyDirectory_def record_call_def Let_def
       split: option.splits node.splits prod.splits)

lemma ran_step: "ran c x w = (r, w') \<Longrightarrow> P c \<Longrightarrow> step P w w'"
  by (rule step_call [of P c]) (auto simp: ran_def record_call_def split: prod.splits)

lemma Layer_OverrideSharedEnv_step:
  "Layer_OverrideSharedEnv l k v w = (r, w') \<Longrightarrow> P (OverrideSharedEnv_call (Root l) k (path_string v))
     \<Longrightarrow> step P w w'"
  by (rule step_call [of P "OverrideSharedEnv_call (Root l) k (path_string v)"])
    (auto simp: Layer_OverrideSharedEnv_def record_call_def Let_def split: option.splits)

lemma Layer_AppendPathSharedEnv_step:
  "Layer_AppendPathSharedEnv l k v w = (r, w') \<Longrightarrow> P (AppendPathSharedEnv_call (Root l) k (path_string v))
     \<Longrightarrow> step P w w'"
  by (rule step_call [of P "AppendPathSharedEnv_call (Root l) k (path_string v)"])
    (auto simp: Layer_AppendPathSharedEnv_def record_call_def Let_def split: option.splits)

lemma tipVendorDependencies_step:
  assumes "tipVendorDependencies c p w = (r, w')" and "P (ReadDir p)"
  shows "step P w w'"
proof -
  obtain r1 w1 where s1: "ioutil_ReadDir p w = (r1, w1)" by (cases "ioutil_ReadDir p w")
  have t1: "step P w w1" by (rule ioutil_ReadDir_step [where P = P, OF s1 assms(2)])
  from assms(1) s1 have "w' = w1 \<or> w' = Logger_Info ''It is recommended to vendor the application's Node.js dependencies'' w1"
    by (auto simp: tipVendorDependencies_def hasSubdirs_def split: sum.splits if_splits)
  with t1 show ?thesis by (auto intro: step_trans Logger_Info_step)
qed


lemma appendsI: "(\<And>w r w'. f w = (r, w') \<Longrightarrow> step P w w') \<Longrightarrow> appends P f"
  by (simp add: appends_def)

lemma appendsD: "appends P f \<Longrightarrow> f w = (r, w') \<Longrightarrow> step P w w'"
  by (simp add: appends_def)

lemma appends_andThen:
  assumes f: "appends P f" and g: "appends P g"
  shows "appends P (andThen f g)"
proof (rule appendsI)
  fix w r w'
  assume a: "andThen f g w = (r, w')"
  obtain r1 w1 where fw: "f w = (r1, w1)" by (cases "f w")
  obtain r2 w2 where gw: "g w1 = (r2, w2)" by (cases "g w1")
  note t1 = appendsD [OF f fw] and t2 = appendsD [OF g gw]
  from a fw gw have "w' = w1 \<or> w' = w2" by (auto simp: andThen_def split: option.splits)
  with t1 t2 show "step P w w'" by (auto intro: step_trans)
qed

lemma installOrRebuild_appends:
  assumes "\<And>p. P (Stat p)" "\<And>p. P (ReadDir p)" "\<And>p q r. P (PM_Install p q r)" "\<And>p q. P (PM_Rebuild p q)"
  shows "appends P (installOrRebuild c layer)"
proof (rule appendsI)
  fix w r w'
  assume a: "installOrRebuild c layer w = (r, w')"
  let ?nm = "filepath_Join (AppRoot (app c)) ModulesDir"
  let ?rebuild = "\<lambda>w. pm_Rebuild (pkgManager c) (Root (npmCacheLayer c)) (AppRoot (app c))
       (Logger_Info ''Rebuilding node_modules'' w)"
  let ?install = "\<lambda>w. pm_Install (pkgManager c) (Root layer) (Root (npmCacheLayer c)) (AppRoot (app c))
       (Logger_Info ''Installing node_modules'' w)"
  obtain r1 w1 where s1: "tipVendorDependencies c ?nm w = (r1, w1)"
    by (cases "tipVendorDependencies c ?nm w")
  obtain r2 w2 where s2: "helper_FileExists ?nm w1 = (r2, w2)"
    by (cases "helper_FileExists ?nm w1")
  obtain r3 w3 where s3: "?rebuild w2 = (r3, w3)" by (cases "?rebuild w2")
  obtain r4 w4 where s4: "?install w2 = (r4, w4)" by (cases "?install w2")
  have t1: "step P w w1" by (rule tipVendorDependencies_step [where P = P, OF s1 assms(2)])
  have t2: "step P w1 w2" by (rule helper_FileExists_step [where P = P, OF s2 assms(1)])
  have t3: "step P w2 w3"
    by (rule step_trans [OF Logger_Info_step ran_step [where P = P, OF s3 [unfolded pm_Rebuild_def] assms(4)]])
  have t4: "step P w2 w4"
    by (rule step_trans [OF Logger_Info_step ran_step [where P = P, OF s4 [unfolded pm_Install_def] assms(3)]])
  note u2 = step_trans [OF t1 t2]
  note u3 = step_trans [OF u2 t3] and u4 = step_trans [OF u2 t4]
  from a s1 s2 s3 s4 t1 u2 u3 u4 show "step P w w'"
    by (auto simp: installOrRebuild_def Let_def split: option.splits sum.splits if_splits)
qed

lemma relocate_appends:
  assumes "\<And>p. P (Stat p)" "\<And>p q. P (CopyDirectory p q)" "\<And>p. P (RemoveAll p)"
  shows "appends P (relocate c layer)"
proof (rule appendsI)
  fix w r w'
  assume a: "relocate c layer w = (r, w')"
  let ?nm = "filepath_Join (AppRoot (app c)) ModulesDir"
  let ?dst = "filepath_Join (Root layer) ModulesDir"
  obtain r1 w1 where s1: "helper_FileExists ?nm w = (r1, w1)" by (cases "helper_FileExists ?nm w")
  obtain r2 w2 where s2: "helper_CopyDirectory ?nm ?dst w1 = (r2, w2)"
    by (cases "helper_CopyDirectory ?nm ?dst w1")
  obtain r3 w3 where s3: "os_RemoveAll ?nm w2 = (r3, w3)" by (cases "os_RemoveAll ?nm w2")
  have t1: "step P w w1" by (rule helper_FileExists_step [where P = P, OF s1 assms(1)])
  have t2: "step P w1 w2" by (rule helper_CopyDirectory_step [where P = P, OF s2 assms(2)])
  have t3: "step P w2 w3" by (rule os_RemoveAll_step [where P = P, OF s3 assms(3)])
  note u2 = step_trans [OF t1 t2]
  note u3 = step_trans [OF u2 t3]
  from a s1 s2 s3 t1 u2 u3 show "step P w w'"
    by (auto simp: relocate_def Let_def split: option.splits sum.splits if_splits)
qed

lemma checkAndExport_appends:
  assumes "\<And>k v. P (Setenv k v)" "\<And>p. P (PM_WarnUnmetDependencies p)"
    "\<And>p k v. P (OverrideSharedEnv_call p k v)" "\<And>p k v. P (AppendPathSharedEnv_call p k v)"
  shows "appends P (checkAndExport c layer)"
proof (rule appendsI)
  fix w r w'
  assume a: "checkAndExport c layer w = (r, w')"
  let ?dst = "filepath_Join (Root layer) ModulesDir"
  obtain r1 w1 where s1: "os_Setenv ''NODE_VERBOSE'' ''true'' w = (r1, w1)"
    by (cases "os_Setenv ''NODE_VERBOSE'' ''true'' w")
  obtain r2 w2 where s2: "pm_WarnUnmetDependencies (pkgManager c) (AppRoot (app c)) w1 = (r2, w2)"
    by (cases "pm_WarnUnmetDependencies (pkgManager c) (AppRoot (app c)) w1")
  obtain r3 w3 where s3: "Layer_OverrideSharedEnv layer ''NODE_PATH'' ?dst w2 = (r3, w3)"
    by (cases "Layer_OverrideSharedEnv layer ''NODE_PATH'' ?dst w2")
  obtain r4 w4 where s4: "Layer_AppendPathSharedEnv layer ''PATH'' (filepath_Join ?dst ''.bin'') w3 = (r4, w4)"
    by (cases "Layer_AppendPathSharedEnv layer ''PATH'' (filepath_Join ?dst ''.bin'') w3")
  have t1: "step P w w1" by (rule os_Setenv_step [where P = P, OF s1 assms(1)])
  have t2: "step P w1 w2"
    using s2 unfolding pm_WarnUnmetDependencies_def by (rule ran_step [where P = P]) (rule assms(2))
  have t3: "step P w2 w3" by (rule Layer_OverrideSharedEnv_step [where P = P, OF s3 assms(3)])
  have t4: "step P w3 w4" by (rule Layer_AppendPathSharedEnv_step [where P = P, OF s4 assms(4)])
  note u2 = step_trans [OF t1 t2]
  note u3 = step_trans [OF u2 t3]
  note u4 = step_trans [OF u3 t4]
  from a s1 s2 s3 s4 t1 u2 u3 u4 show "step P w w'"
    by (auto simp: checkAndExport_def split: option.splits)
qed

lemma contributeNPMCache_appends:
  assumes "\<And>p. P (Stat p)" "\<And>p. P (MkdirAll p)" "\<And>p q. P (CopyDirectory p q)" "\<And>p. P (RemoveAll p)"
  shows "appends P (contributeNPMCache c layer)"
proof (rule appendsI)
  fix w r w'
  assume a: "contributeNPMCache c layer w = (r, w')"
  let ?src = "filepath_Join (AppRoot (app c)) CacheDir"
  let ?dst = "filepath_Join (Root layer) CacheDir"
  obtain r0 w0 where s0: "os_MkdirAll (Root layer) w = (r0, w0)" by (cases "os_MkdirAll (Root layer) w")
  obtain r1 w1 where s1: "helper_FileExists ?src w0 = (r1, w1)" by (cases "helper_FileExists ?src w0")
  obtain r2 w2 where s2: "helper_CopyDirectory ?src ?dst w1 = (r2, w2)"
    by (cases "helper_CopyDirectory ?src ?dst w1")
  obtain r3 w3 where s3: "os_RemoveAll ?src w2 = (r3, w3)" by (cases "os_RemoveAll ?src w2")
  have t0: "step P w w0" by (rule os_MkdirAll_step [where P = P, OF s0 assms(2)])
  have t1: "step P w0 w1" by (rule helper_FileExists_step [where P = P, OF s1 assms(1)])
  have t2: "step P w1 w2" by (rule helper_CopyDirectory_step [where P = P, OF s2 assms(3)])
  have t3: "step P w2 w3" by (rule os_RemoveAll_step [where P = P, OF s3 assms(4)])
  note u1 = step_trans [OF t0 t1]
  note u2 = step_trans [OF u1 t2]
  note u3 = step_trans [OF u2 t3]
  from a s0 s1 s2 s3 t0 u1 u2 u3 show "step P w w'"
    by (auto simp: contributeNPMCache_def Let_def split: option.splits sum.splits if_splits)
qed

lemma contributeNodeModules_appends:
  assumes "\<And>c. inner c \<Longrightarrow> P c"
  shows "appends P (contributeNodeModules c layer)"
proof -
  have "appends P (andThen (installOrRebuild c layer) (andThen (relocate c layer) (checkAndExport c layer)))"
    by (intro appends_andThen installOrRebuild_appends relocate_appends checkAndExport_appends assms)
      simp_all
  moreover have "contributeNodeModules c layer
      = andThen (installOrRebuild c layer) (andThen (relocate c layer) (checkAndExport c layer))"
    by (rule ext) (rule contributeNodeModules_stages)
  ultimately show ?thesis by simp
qed

lemma Layer_Contribute_calls:
  assumes f: "appends P (f l)" and r: "Layer_Contribute l m f fl w = (r, w')"
  shows "(\<exists>cs. calls w' = calls w @ Layer_Contribute_call (Root l) m fl # cs \<and> list_all P cs)
         \<and> failing w' = failing w \<and> app_metadata w' = app_metadata w"
proof -
  let ?w1 = "record_call (Layer_Contribute_call (Root l) m fl) w"
  let ?G = "\<lambda>w'. (\<exists>cs. calls w' = calls w @ Layer_Contribute_call (Root l) m fl # cs \<and> list_all P cs)
         \<and> failing w' = failing w \<and> app_metadata w' = app_metadata w"
  obtain r2 w2 where c: "f l ?w1 = (r2, w2)" by (cases "f l ?w1")
  from appendsD [OF f c] obtain cs where
    cs: "calls w2 = calls ?w1 @ cs" "list_all P cs" "failing w2 = failing ?w1" "app_metadata w2 = app_metadata ?w1"
    by (auto simp: step_def)
  have g1: "?G ?w1" by (simp add: record_call_def)
  have g1': "?G (?w1\<lparr>layer_toml := (layer_toml ?w1)(Root l \<mapsto> (m, fl))\<rparr>)"
    by (simp add: record_call_def)
  from cs have g2: "?G w2" by (simp add: record_call_def)
  from cs have g2': "?G (w2\<lparr>layer_toml := (layer_toml w2)(Root l \<mapsto> (m, fl))\<rparr>)"
    by (simp add: record_call_def)
  show ?thesis
  proof (cases "fault w")
    case (Some e)
    with r have "w' = ?w1" by (simp add: Layer_Contribute_def Let_def)
    with g1 show ?thesis by simp
  next
    case None
    show ?thesis
    proof (cases "map_option fst (layer_toml w (Root l)) = Some m")
      case True
      with None r have "w' = ?w1\<lparr>layer_toml := (layer_toml ?w1)(Root l \<mapsto> (m, fl))\<rparr>"
        by (simp add: Layer_Contribute_def Let_def)
      with g1' show ?thesis by simp
    next
      case False
      show ?thesis
      proof (cases r2)
        case n: None
        with None False r c have "w' = w2\<lparr>layer_toml := (layer_toml w2)(Root l \<mapsto> (m, fl))\<rparr>"
          by (simp add: Layer_Contribute_def Let_def)
        with g2' show ?thesis by simp
      next
        case (Some e)
        with None False r c have "w' = w2" by (simp add: Layer_Contribute_def Let_def)
        with g2 show ?thesis by simp
      qed
    qed
  qed
qed

subsection \<open>Contribute: the layers' flags and the registered process\<close>

lemma inner_not_registration: "list_all inner cs \<Longrightarrow> filter is_registration cs = []"
  by (induction cs) (auto elim: inner.elims)

lemma inner_not_contribution: "list_all inner cs \<Longrightarrow> filter is_contribution cs = []"
  by (induction cs) (auto elim: inner.elims)

lemma contributeNodeModules_inner: "appends inner (contributeNodeModules c layer)"
  by (rule contributeNodeModules_appends)

lemma contributeNPMCache_inner: "appends inner (contributeNPMCache c layer)"
  by (rule contributeNPMCache_appends) simp_all

lemma Layers_WriteApplicationMetadata_calls:
  "Layers_WriteApplicationMetadata ls ps w = (r, w') \<Longrightarrow>
     calls w' = calls w @ [WriteApplicationMetadata_call ps] \<and> (r = None \<longrightarrow> app_metadata w' = Some ps)"
  by (auto simp: Layers_WriteApplicationMetadata_def Let_def record_call_def split: option.splits)

text \<open>
  C7. A run of Contribute that returns no error has written the application metadata
  exactly once, whichever of the layers were reused, and what it wrote is the single
  process "web" with the command "npm start".
\<close>

theorem web_process_registered:
  assumes "Contribute c w = (None, w')"
  shows "app_metadata w' = Some [\<lparr>Type = ''web'', Command = ''npm start'', Direct = False\<rparr>] \<and>
         filter is_registration (made w w')
           = [WriteApplicationMetadata_call [\<lparr>Type = ''web'', Command = ''npm start'', Direct = False\<rparr>]]"
proof -
  let ?web = "[\<lparr>Type = ''web'', Command = ''npm start'', Direct = False\<rparr>]"
  let ?L1 = "Layer_Contribute (nodeModulesLayer c) (NodeModulesMetadata c) (contributeNodeModules c) (flags c)"
  let ?L2 = "Layer_Contribute (npmCacheLayer c) (NPMCacheMetadata c) (contributeNPMCache c) [layers_Cache]"
  obtain r1 w1 where s1: "?L1 w = (r1, w1)" by (cases "?L1 w")
  obtain r2 w2 where s2: "?L2 w1 = (r2, w2)" by (cases "?L2 w1")
  from assms s1 have r1: "r1 = None" by (auto simp: Contribute_def split: option.splits)
  from assms s1 s2 r1 have r2: "r2 = None" by (auto simp: Contribute_def split: option.splits)
  from assms s1 s2 r1 r2 have s3: "Layers_WriteApplicationMetadata (launch c) ?web w2 = (None, w')"
    by (simp add: Contribute_def)
  from Layer_Contribute_calls [OF contributeNodeModules_inner s1] obtain cs1 where
    c1: "calls w1 = calls w @ Layer_Contribute_call (Root (nodeModulesLayer c)) (NodeModulesMetadata c) (flags c) # cs1"
      "list_all inner cs1" by blast
  from Layer_Contribute_calls [OF contributeNPMCache_inner s2] obtain cs2 where
    c2: "calls w2 = calls w1 @ Layer_Contribute_call (Root (npmCacheLayer c)) (NPMCacheMetadata c) [layers_Cache] # cs2"
      "list_all inner cs2" by blast
  from Layers_WriteApplicationMetadata_calls [OF s3]
  have c3: "calls w' = calls w2 @ [WriteApplicationMetadata_call ?web]"
    and m: "app_metadata w' = Some ?web" by simp_all
  from c1 c2 c3 have "filter is_registration (made w w') = [WriteApplicationMetadata_call ?web]"
    by (simp add: made_def inner_not_registration)
  with m show ?thesis by simp
qed

text \<open>
  C8. Contribute first contributes the dependency-tree layer, with the flag Cache, then
  Build if the build intent is set, then Launch if the launch intent is set, and nothing
  else; the only other contribution it makes is the cache layer's, with the flag Cache
  alone, and it makes that one whenever the first contribution returned no error.
\<close>

theorem contribution_flags:
  assumes "Contribute c w = (r, w')"
  shows "\<exists>rest. filter is_contribution (made w w')
             = Layer_Contribute_call (Root (nodeModulesLayer c)) (NodeModulesMetadata c)
                 (layers_Cache # (if buildContribution c then [layers_Build] else [])
                    @ (if launchContribution c then [layers_Launch] else [])) # rest
           \<and> (rest = [] \<or>
                rest = [Layer_Contribute_call (Root (npmCacheLayer c)) (NPMCacheMetadata c) [layers_Cache]])
           \<and> (r = None \<longrightarrow> rest \<noteq> [])"
proof -
  let ?web = "[\<lparr>Type = ''web'', Command = ''npm start'', Direct = False\<rparr>]"
  let ?fl = "layers_Cache # (if buildContribution c then [layers_Build] else [])
                    @ (if launchContribution c then [layers_Launch] else [])"
  let ?L1 = "Layer_Contribute (nodeModulesLayer c) (NodeModulesMetadata c) (contributeNodeModules c) (flags c)"
  let ?L2 = "Layer_Contribute (npmCacheLayer c) (NPMCacheMetadata c) (contributeNPMCache c) [layers_Cache]"
  let ?e1 = "Layer_Contribute_call (Root (nodeModulesLayer c)) (NodeModulesMetadata c) ?fl"
  let ?e2 = "Layer_Contribute_call (Root (npmCacheLayer c)) (NPMCacheMetadata c) [layers_Cache]"
  have fl: "flags c = ?fl" by (simp add: flags_def)
  obtain r1 w1 where s1: "?L1 w = (r1, w1)" by (cases "?L1 w")
  obtain r2 w2 where s2: "?L2 w1 = (r2, w2)" by (cases "?L2 w1")
  obtain r3 w3 where s3: "Layers_WriteApplicationMetadata (launch c) ?web w2 = (r3, w3)"
    by (cases "Layers_WriteApplicationMetadata (launch c) ?web w2")
  from Layer_Contribute_calls [OF contributeNodeModules_inner s1] fl obtain cs1 where
    c1: "calls w1 = calls w @ ?e1 # cs1" "list_all inner cs1" by auto
  from Layer_Contribute_calls [OF contributeNPMCache_inner s2] obtain cs2 where
    c2: "calls w2 = calls w1 @ ?e2 # cs2" "list_all inner cs2" by blast
  from Layers_WriteApplicationMetadata_calls [OF s3]
  have c3: "calls w3 = calls w2 @ [WriteApplicationMetadata_call ?web]" by simp
  have m1: "filter is_contribution (made w w1) = [?e1]"
    using c1 by (simp add: made_def inner_not_contribution)
  have m2: "filter is_contribution (made w w2) = [?e1, ?e2]"
    using c1 c2 by (simp add: made_def inner_not_contribution)
  have m3: "filter is_contribution (made w w3) = [?e1, ?e2]"
    using c1 c2 c3 by (simp add: made_def inner_not_contribution)
  show ?thesis
  proof (cases r1)
    case (Some e)
    with assms s1 have "w' = w1" "r \<noteq> None" by (auto simp: Contribute_def)
    with m1 show ?thesis by simp
  next
    case n1: None
    show ?thesis
    proof (cases r2)
      case (Some e)
      with n1 assms s1 s2 have "w' = w2" "r \<noteq> None" by (auto simp: Contribute_def)
      with m2 show ?thesis by simp
    next
      case None
      with n1 assms s1 s2 s3 have "w' = w3" by (simp add: Contribute_def)
      with m3 show ?thesis by simp
    qed
  qed
qed

lemmas model_defs =
  Contribute_def contributeNodeModules_def contributeNPMCache_def tipVendorDependencies_def
  hasSubdirs_def flags_def Layer_Contribute_def prim_defs children_def files_below_def reached_def helper_CopyFile_def
  fmt_Errorf_def Let_def made_def

theorem web_process_registered_witness:
  "fst (Contribute (contributor_ws pm_npm) (world_of fs_bare (\<lambda>n. 5))) = None \<and>
   app_metadata (snd (Contribute (contributor_ws pm_npm) (world_of fs_bare (\<lambda>n. 5))))
     = Some [\<lparr>Type = ''web'', Command = ''npm start'', Direct = False\<rparr>]"
proof -
  let ?r = "Contribute (contributor_ws pm_npm) (world_of fs_bare (\<lambda>n. 5))"
  have e: "fst ?r = None" by (simp add: model_defs example_defs)
  then have "?r = (None, snd ?r)" by (simp add: prod_eq_iff)
  from web_process_registered [OF this] e show ?thesis by simp
qed

theorem contribution_flags_witness:
  "filter is_contribution (calls (snd (Contribute (contributor_ws pm_npm) (world_of fs_vendored (\<lambda>n. 5)))))
     = [Layer_Contribute_call [''layers'', ''node_modules''] \<lparr>Name = ''Node Modules'', Hash = ''0''\<rparr>
          [layers_Cache, layers_Launch],
        Layer_Contribute_call [''layers'', ''cache''] \<lparr>Name = ''NPM Cache'', Hash = ''0''\<rparr>
          [layers_Cache]]"
proof -
  let ?w = "world_of fs_vendored (\<lambda>n. 5)"
  let ?r = "Contribute (contributor_ws pm_npm) ?w"
  have e: "fst ?r = None" by (simp add: model_defs example_defs)
  then have "?r = (None, snd ?r)" by (simp add: prod_eq_iff)
  from contribution_flags [OF this] have
    "\<exists>rest. filter is_contribution (made ?w (snd ?r))
             = Layer_Contribute_call [''layers'', ''node_modules''] \<lparr>Name = ''Node Modules'', Hash = ''0''\<rparr>
                 [layers_Cache, layers_Launch] # rest
           \<and> (rest = [] \<or>
                rest = [Layer_Contribute_call [''layers'', ''cache''] \<lparr>Name = ''NPM Cache'', Hash = ''0''\<rparr> [layers_Cache]])
           \<and> rest \<noteq> []"
    by (simp add: example_defs)
  moreover have "made ?w (snd ?r) = calls (snd ?r)" by (simp add: made_def world_of_def)
  ultimately show ?thesis by auto
qed

subsection \<open>Without a lock file; the plan's metadata\<close>

lemma Layer_Contribute_stale:
  assumes "failing w (length (calls w)) = None"
    and "map_option fst (layer_toml w (Root l)) \<noteq> Some expected"
  shows "Layer_Contribute l expected contributor fl w =
     (case contributor l (record_call (Layer_Contribute_call (Root l) expected fl) w) of
        (Some err, w2) \<Rightarrow> (Some err, w2)
      | (None, w2) \<Rightarrow> (None, w2\<lparr>layer_toml := (layer_toml w2)(Root l \<mapsto> (expected, fl))\<rparr>))"
  using assms by (simp add: Layer_Contribute_def fault_def Let_def)

lemma Layer_Contribute_reuse:
  assumes "failing w (length (calls w)) = None"
    and "map_option fst (layer_toml w (Root l)) = Some expected"
  shows "Layer_Contribute l expected contributor fl w =
     (None, w\<lparr>calls := calls w @ [Layer_Contribute_call (Root l) expected fl],
               layer_toml := (layer_toml w)(Root l \<mapsto> (expected, fl))\<rparr>)"
  using assms by (simp add: Layer_Contribute_def fault_def Let_def record_call_def)

text \<open>
  C4. Without a lock file (and with a stat that does not fail), computing the
  fingerprints is not an error, and the dependency-tree layer's hash is the clock's
  reading in nanoseconds, written in base 16. Two such computations at different
  readings give different fingerprints, so a layer store that holds the one and is given
  the other does not reuse the layer: it runs the contribution function.
\<close>

theorem no_lock_file_fingerprint:
  assumes "map_of (fs w1) (filepath_Join (AppRoot (app c1)) PackageLock) = None"
    and "failing w1 (length (calls w1)) = None"
    and "map_of (fs w2) (filepath_Join (AppRoot (app c2)) PackageLock) = None"
    and "failing w2 (length (calls w2)) = None"
    and "now w1 (ticks w1) \<noteq> now w2 (ticks w2)"
    and "failing w (length (calls w)) = None"
    and "map_option fst (layer_toml w (Root l)) = Some (NodeModulesMetadata (fst (snd (setLayersMetadata c1 w1))))"
  shows "fst (setLayersMetadata c1 w1) = None \<and> fst (setLayersMetadata c2 w2) = None \<and>
         NodeModulesMetadata (fst (snd (setLayersMetadata c1 w1)))
           = \<lparr>Name = ''Node Modules'', Hash = FormatInt16 (now w1 (ticks w1))\<rparr> \<and>
         NodeModulesMetadata (fst (snd (setLayersMetadata c1 w1)))
           \<noteq> NodeModulesMetadata (fst (snd (setLayersMetadata c2 w2))) \<and>
         Layer_Contribute l (NodeModulesMetadata (fst (snd (setLayersMetadata c2 w2)))) contributor fl w
           = (case contributor l (record_call (Layer_Contribute_call (Root l)
                      (NodeModulesMetadata (fst (snd (setLayersMetadata c2 w2)))) fl) w) of
                (Some err, w') \<Rightarrow> (Some err, w')
              | (None, w') \<Rightarrow>
                  (None, w'\<lparr>layer_toml := (layer_toml w')(Root l \<mapsto>
                      (NodeModulesMetadata (fst (snd (setLayersMetadata c2 w2))), fl))\<rparr>))"
proof -
  note a = setLayersMetadata_nolock [OF assms(1,2)] and b = setLayersMetadata_nolock [OF assms(3,4)]
  from assms(5) have h: "FormatInt16 (now w1 (ticks w1)) \<noteq> FormatInt16 (now w2 (ticks w2))"
    using FormatInt16_inj by blast
  have d: "NodeModulesMetadata (fst (snd (setLayersMetadata c1 w1)))
           \<noteq> NodeModulesMetadata (fst (snd (setLayersMetadata c2 w2)))"
    using h by (simp add: a b)
  with assms(7) have "map_option fst (layer_toml w (Root l))
      \<noteq> Some (NodeModulesMetadata (fst (snd (setLayersMetadata c2 w2))))" by (metis option.inject)
  from Layer_Contribute_stale [OF assms(6) this] d show ?thesis
    by (simp add: a b ModulesMetaName_def)
qed

lemma as_bool_True: "fst (as_bool v) = (v = Some (TBool True))"
  by (cases v rule: as_bool.cases) auto

text \<open>
  C10. When the plan asks for the dependency, the lock file is absent or a readable
  file, and the two calls that look at it do not fail, NewContributor succeeds whatever
  the plan's metadata holds. The build intent is true exactly when "build" is the boolean
  true, so a missing or non-boolean entry leaves it false and the flag Build out; the
  same holds of "launch" and the flag Launch.
\<close>

theorem missing_intent_is_false:
  assumes "GetShallowMerged context Dependency = (plan, True, None)"
    and "map_of (fs w) (filepath_Join (AppRoot (Application context)) PackageLock) \<noteq> Some Dir"
    and "failing w (length (calls w)) = None"
    and "failing w (Suc (length (calls w))) = None"
  shows "\<exists>c w'. NewContributor context pm w = ((Some c, True, None), w') \<and>
           buildContribution c = (PlanMetadata plan ''build'' = Some (TBool True)) \<and>
           launchContribution c = (PlanMetadata plan ''launch'' = Some (TBool True)) \<and>
           (layers_Build \<in> set (flags c)) = (PlanMetadata plan ''build'' = Some (TBool True)) \<and>
           (layers_Launch \<in> set (flags c)) = (PlanMetadata plan ''launch'' = Some (TBool True))"
proof -
  let ?c0 = "\<lparr>NodeModulesMetadata = \<lparr>Name = [], Hash = []\<rparr>,
              NPMCacheMetadata = \<lparr>Name = [], Hash = []\<rparr>,
              buildContribution = False, launchContribution = False, pkgManager = pm,
              app = Application context,
              nodeModulesLayer = Layers_Layer (Layers context) Dependency,
              npmCacheLayer = Layers_Layer (Layers context) Cache,
              launch = Layers context\<rparr>"
  let ?lock = "filepath_Join (AppRoot (Application context)) PackageLock"
  have "\<exists>c1 w'. setLayersMetadata ?c0 w = (None, c1, w')"
  proof (cases "map_of (fs w) ?lock")
    case None
    then have "map_of (fs w) (filepath_Join (AppRoot (app ?c0)) PackageLock) = None" by simp
    from setLayersMetadata_nolock [OF this assms(3)] show ?thesis by blast
  next
    case (Some n)
    with assms(2) obtain bs where "n = File bs" by (cases n) auto
    with Some have "map_of (fs w) (filepath_Join (AppRoot (app ?c0)) PackageLock) = Some (File bs)"
      by simp
    from setLayersMetadata_lock [OF this assms(3,4)] show ?thesis by blast
  qed
  then obtain c1 w' where s: "setLayersMetadata ?c0 w = (None, c1, w')" by blast
  with assms(1) show ?thesis
    by (simp add: NewContributor_def Let_def flags_def as_bool_True)
qed

lemma FormatInt16_examples: "FormatInt16 1000 = ''3e8''" "FormatInt16 2000 = ''7d0''"
  by code_simp+

theorem no_lock_file_fingerprint_witness:
  "NodeModulesMetadata (fst (snd (setLayersMetadata (contributor_ws pm_idle) (world_of fs_bare (\<lambda>n. 1000)))))
     = \<lparr>Name = ''Node Modules'', Hash = ''3e8''\<rparr> \<and>
   NodeModulesMetadata (fst (snd (setLayersMetadata (contributor_ws pm_idle) (world_of fs_bare (\<lambda>n. 1000)))))
     \<noteq> NodeModulesMetadata (fst (snd (setLayersMetadata (contributor_ws pm_idle) (world_of fs_bare (\<lambda>n. 2000)))))"
proof -
  let ?c = "contributor_ws pm_idle"
  let ?w1 = "world_of fs_bare (\<lambda>n. 1000)"
  let ?w2 = "world_of fs_bare (\<lambda>n. 2000)"
  let ?m1 = "NodeModulesMetadata (fst (snd (setLayersMetadata ?c ?w1)))"
  let ?w = "?w2\<lparr>layer_toml := (\<lambda>p. Some (?m1, [layers_Cache]))\<rparr>"
  have n1: "map_of (fs ?w1) (filepath_Join (AppRoot (app ?c)) PackageLock) = None"
    by (simp add: example_defs)
  have n2: "map_of (fs ?w2) (filepath_Join (AppRoot (app ?c)) PackageLock) = None"
    by (simp add: example_defs)
  have f1: "failing ?w1 (length (calls ?w1)) = None" by (simp add: example_defs)
  have f2: "failing ?w2 (length (calls ?w2)) = None" by (simp add: example_defs)
  have t: "now ?w1 (ticks ?w1) \<noteq> now ?w2 (ticks ?w2)" by (simp add: example_defs)
  have f: "failing ?w (length (calls ?w)) = None" by (simp add: example_defs)
  have p: "map_option fst (layer_toml ?w (Root (nodeModulesLayer ?c))) = Some ?m1" by simp
  have v: "now ?w1 (ticks ?w1) = 1000" by (simp add: example_defs)
  note th = no_lock_file_fingerprint [OF n1 f1 n2 f2 t f p,
      where contributor = "contributeNodeModules ?c" and fl = "[layers_Cache]"]
  from th have "?m1 = \<lparr>Name = ''Node Modules'', Hash = FormatInt16 (now ?w1 (ticks ?w1))\<rparr>"
    by (rule conjunct1 [OF conjunct2 [OF conjunct2]])
  then have a: "?m1 = \<lparr>Name = ''Node Modules'', Hash = ''3e8''\<rparr>"
    by (simp only: v FormatInt16_examples)
  from th have b: "?m1 \<noteq> NodeModulesMetadata (fst (snd (setLayersMetadata ?c ?w2)))"
    by (rule conjunct1 [OF conjunct2 [OF conjunct2 [OF conjunct2]]])
  from a b show ?thesis by (rule conjI)
qed

theorem missing_intent_is_false_witness:
  "\<exists>c w'. NewContributor (build_ws (\<lambda>k. if k = ''build'' then Some (TString ''yes'') else None))
              pm_idle (world_of fs_bare (\<lambda>n. 1000)) = ((Some c, True, None), w') \<and>
     \<not> buildContribution c \<and> \<not> launchContribution c \<and>
     layers_Build \<notin> set (flags c) \<and> layers_Launch \<notin> set (flags c)"
proof -
  let ?md = "\<lambda>k. if k = ''build'' then Some (TString ''yes'') else None"
  let ?w = "world_of fs_bare (\<lambda>n. 1000)"
  have g: "GetShallowMerged (build_ws ?md) Dependency = (\<lparr>Version = [], PlanMetadata = ?md\<rparr>, True, None)"
    by (simp add: build_ws_def plan_of_def)
  have l: "map_of (fs ?w) (filepath_Join (AppRoot (Application (build_ws ?md))) PackageLock) \<noteq> Some Dir"
    by (simp add: example_defs)
  have f: "failing ?w (length (calls ?w)) = None" "failing ?w (Suc (length (calls ?w))) = None"
    by (simp_all add: example_defs)
  from missing_intent_is_false [OF g l f, of pm_idle] show ?thesis by simp
qed

subsection \<open>Rebuild or install\<close>

lemma installOrRebuild_calls:
  assumes "failing w (length (calls w)) = None" and "failing w (Suc (length (calls w))) = None"
  shows "calls (snd (installOrRebuild c layer w)) = calls w @
      (case map_of (fs w) (filepath_Join (AppRoot (app c)) ModulesDir) of
         None \<Rightarrow> [ReadDir (filepath_Join (AppRoot (app c)) ModulesDir),
                   Stat (filepath_Join (AppRoot (app c)) ModulesDir),
                   PM_Install (Root layer) (Root (npmCacheLayer c)) (AppRoot (app c))]
       | Some Dir \<Rightarrow> [ReadDir (filepath_Join (AppRoot (app c)) ModulesDir),
                       Stat (filepath_Join (AppRoot (app c)) ModulesDir),
                       PM_Rebuild (Root (npmCacheLayer c)) (AppRoot (app c))]
       | Some (File bs) \<Rightarrow> [ReadDir (filepath_Join (AppRoot (app c)) ModulesDir)])"
proof (cases "map_of (fs w) (filepath_Join (AppRoot (app c)) ModulesDir)")
  case None
  with assms show ?thesis
    by (simp add: installOrRebuild_def tipVendorDependencies_def hasSubdirs_def prim_defs Let_def
        split: prod.splits option.splits)
next
  case (Some n)
  with assms show ?thesis
    by (cases n)
      (simp_all add: installOrRebuild_def tipVendorDependencies_def hasSubdirs_def prim_defs Let_def
        split: prod.splits option.splits)
qed

lemma installOrRebuild_file_fails:
  assumes "failing w (length (calls w)) = None"
    and "map_of (fs w) (filepath_Join (AppRoot (app c)) ModulesDir) = Some (File bs)"
  shows "fst (installOrRebuild c layer w) \<noteq> None"
  using assms
  by (simp add: installOrRebuild_def tipVendorDependencies_def hasSubdirs_def prim_defs Let_def)

lemma no_install_or_rebuild:
  "list_all (\<lambda>c. \<not> is_install_or_rebuild c) cs \<Longrightarrow> filter is_install_or_rebuild cs = []"
  by (induction cs) auto

lemma relocate_checkAndExport_quiet:
  "appends (\<lambda>c. \<not> is_install_or_rebuild c) (andThen (relocate c layer) (checkAndExport c layer))"
  by (intro appends_andThen relocate_appends checkAndExport_appends) simp_all

text \<open>
  C1, as the code has it. When neither the listing nor the stat of the application's
  node_modules fails by itself, a stale contribution calls Rebuild once and Install never
  if node_modules is a directory, with or without a directory inside; it calls Install
  once and Rebuild never if node_modules is absent; and if node_modules is a regular file
  the listing fails before either is called.
\<close>

theorem rebuild_iff_node_modules_exists:
  assumes "contributeNodeModules c layer w = (r, w')"
    and "failing w (length (calls w)) = None"
    and "failing w (Suc (length (calls w))) = None"
  shows "filter is_install_or_rebuild (made w w') =
      (case map_of (fs w) (filepath_Join (AppRoot (app c)) ModulesDir) of
         None \<Rightarrow> [PM_Install (Root layer) (Root (npmCacheLayer c)) (AppRoot (app c))]
       | Some Dir \<Rightarrow> [PM_Rebuild (Root (npmCacheLayer c)) (AppRoot (app c))]
       | Some (File bs) \<Rightarrow> [])"
proof -
  let ?nm = "filepath_Join (AppRoot (app c)) ModulesDir"
  let ?rest = "andThen (relocate c layer) (checkAndExport c layer)"
  obtain r1 w1 where s1: "installOrRebuild c layer w = (r1, w1)"
    by (cases "installOrRebuild c layer w")
  obtain r2 w2 where s2: "?rest w1 = (r2, w2)" by (cases "?rest w1")
  from installOrRebuild_calls [OF assms(2,3), of c layer] s1
  have c1: "calls w1 = calls w @
      (case map_of (fs w) ?nm of
         None \<Rightarrow> [ReadDir ?nm, Stat ?nm, PM_Install (Root layer) (Root (npmCacheLayer c)) (AppRoot (app c))]
       | Some Dir \<Rightarrow> [ReadDir ?nm, Stat ?nm, PM_Rebuild (Root (npmCacheLayer c)) (AppRoot (app c))]
       | Some (File bs) \<Rightarrow> [ReadDir ?nm])"
    by simp
  then have m1: "filter is_install_or_rebuild (made w w1) =
      (case map_of (fs w) ?nm of
         None \<Rightarrow> [PM_Install (Root layer) (Root (npmCacheLayer c)) (AppRoot (app c))]
       | Some Dir \<Rightarrow> [PM_Rebuild (Root (npmCacheLayer c)) (AppRoot (app c))]
       | Some (File bs) \<Rightarrow> [])"
    by (simp add: made_def split: option.splits node.splits)
  from appendsD [OF relocate_checkAndExport_quiet s2] obtain cs where
    c2: "calls w2 = calls w1 @ cs" "list_all (\<lambda>c. \<not> is_install_or_rebuild c) cs"
    by (auto simp: step_def)
  from c1 c2 have "made w w2 = made w w1 @ cs" by (simp add: made_def)
  with c2(2) have m2: "filter is_install_or_rebuild (made w w2) = filter is_install_or_rebuild (made w w1)"
    by (simp add: no_install_or_rebuild)
  from assms(1) s1 s2 have "w' = w1 \<or> w' = w2"
    unfolding contributeNodeModules_stages by (auto simp: andThen_def [of "installOrRebuild c layer"] split: option.splits)
  with m1 m2 show ?thesis by auto
qed

theorem rebuild_iff_node_modules_exists_witness:
  "filter is_install_or_rebuild
     (calls (snd (contributeNodeModules (contributor_ws pm_npm) (Layers_Layer layers_ws Dependency)
        (world_of fs_bare (\<lambda>n. 5)))))
     = [PM_Install [''layers'', ''node_modules''] [''layers'', ''cache''] [''workspace'']]"
proof -
  let ?w = "world_of fs_bare (\<lambda>n. 5)"
  let ?c = "contributor_ws pm_npm"
  let ?l = "Layers_Layer layers_ws Dependency"
  have e: "contributeNodeModules ?c ?l ?w = (fst (contributeNodeModules ?c ?l ?w), snd (contributeNodeModules ?c ?l ?w))"
    by simp
  have f: "failing ?w (length (calls ?w)) = None" "failing ?w (Suc (length (calls ?w))) = None"
    by (simp_all add: example_defs)
  have m: "made ?w (snd (contributeNodeModules ?c ?l ?w)) = calls (snd (contributeNodeModules ?c ?l ?w))"
    by (simp add: made_def world_of_def)
  from rebuild_iff_node_modules_exists [OF e f] show ?thesis
    unfolding m by (simp add: example_defs)
qed

text \<open>
  The claim as stated fails where node_modules is a directory that holds a file and no
  directory: the listing finds no subdirectory, and yet Rebuild is called and Install is
  not.
\<close>

theorem flat_node_modules_is_rebuilt:
  "fst (hasSubdirs [''workspace'', ''node_modules''] (world_of fs_flat_modules (\<lambda>n. 5))) = (False, None) \<and>
   filter is_install_or_rebuild
     (calls (snd (contributeNodeModules (contributor_ws pm_idle) (Layers_Layer layers_ws Dependency)
        (world_of fs_flat_modules (\<lambda>n. 5)))))
     = [PM_Rebuild [''layers'', ''cache''] [''workspace'']]"
  by (simp add: model_defs example_defs)

subsection \<open>The check of unmet dependencies\<close>

lemma andThen_assoc: "andThen f (andThen g h) w = andThen (andThen f g) h w"
  by (simp add: andThen_def split: prod.splits option.splits)

text \<open>
  C9. Once the rebuild or install and the relocation have succeeded and NODE_VERBOSE is
  set, the check runs on the application root, in the file system that the relocation
  left. If it returns an error, the contribution stops there and returns that error with
  the prefix "failed to check unmet dependencies: ". If it returns none, whatever it
  printed, the contribution goes on to export the environment, and its result is that of
  the two exports.
\<close>

theorem unmet_dependency_check:
  assumes "andThen (installOrRebuild c layer) (relocate c layer) w = (None, w6)"
    and "os_Setenv ''NODE_VERBOSE'' ''true'' w6 = (None, w7)"
    and "WarnUnmetDependencies (pkgManager c) (AppRoot (app c)) (fs w7) = (t, out, res)"
  shows "fs w7 = fs w6 \<and>
         (case res of
            Some err \<Rightarrow>
              contributeNodeModules c layer w =
                (Some (Failure (''failed to check unmet dependencies: '' @ Error err)),
                 w7\<lparr>calls := calls w7 @ [PM_WarnUnmetDependencies (AppRoot (app c))],
                     fs := t, logged := logged w7 @ out\<rparr>)
          | None \<Rightarrow>
              contributeNodeModules c layer w =
                andThen (Layer_OverrideSharedEnv layer ''NODE_PATH'' (filepath_Join (Root layer) ModulesDir))
                  (Layer_AppendPathSharedEnv layer ''PATH''
                     (filepath_Join (filepath_Join (Root layer) ModulesDir) ''.bin''))
                  (w7\<lparr>calls := calls w7 @ [PM_WarnUnmetDependencies (AppRoot (app c))],
                       fs := t, logged := logged w7 @ out\<rparr>))"
proof -
  let ?w8 = "w7\<lparr>calls := calls w7 @ [PM_WarnUnmetDependencies (AppRoot (app c))],
                 fs := t, logged := logged w7 @ out\<rparr>"
  from assms(2) have k: "fs w7 = fs w6"
    by (auto simp: os_Setenv_def Let_def record_call_def split: option.splits)
  have w: "pm_WarnUnmetDependencies (pkgManager c) (AppRoot (app c)) w7 = (res, ?w8)"
    using assms(3) by (simp add: pm_WarnUnmetDependencies_def ran_def record_call_def)
  have "contributeNodeModules c layer w = checkAndExport c layer w6"
    unfolding contributeNodeModules_stages andThen_assoc
    using assms(1) by (simp add: andThen_def [of "andThen (installOrRebuild c layer) (relocate c layer)"])
  also have "\<dots> = (case res of
      Some err \<Rightarrow> (Some (Failure (''failed to check unmet dependencies: '' @ Error err)), ?w8)
    | None \<Rightarrow> andThen (Layer_OverrideSharedEnv layer ''NODE_PATH'' (filepath_Join (Root layer) ModulesDir))
                  (Layer_AppendPathSharedEnv layer ''PATH''
                     (filepath_Join (filepath_Join (Root layer) ModulesDir) ''.bin'')) ?w8)"
    using assms(2) w by (simp add: checkAndExport_def andThen_def fmt_Errorf_def split: option.splits)
  finally show ?thesis using k by (simp split: option.splits)
qed

theorem unmet_dependency_check_witness:
  "fst (contributeNodeModules (contributor_ws pm_broken_check) (Layers_Layer layers_ws Dependency)
          (world_of fs_bare (\<lambda>n. 5)))
     = Some (Failure ''failed to check unmet dependencies: exit status 1'')"
proof -
  let ?c = "contributor_ws pm_broken_check"
  let ?l = "Layers_Layer layers_ws Dependency"
  let ?s = "andThen (installOrRebuild ?c ?l) (relocate ?c ?l) (world_of fs_bare (\<lambda>n. 5))"
  let ?e = "os_Setenv ''NODE_VERBOSE'' ''true'' (snd ?s)"
  have "fst ?s = None"
    by (simp add: andThen_def installOrRebuild_def relocate_def model_defs example_defs)
  then have a: "?s = (None, snd ?s)" by (simp add: prod_eq_iff)
  have "fst ?e = None"
    by (simp add: andThen_def installOrRebuild_def relocate_def model_defs example_defs)
  then have b: "?e = (None, snd ?e)" by (simp add: prod_eq_iff)
  have c: "WarnUnmetDependencies (pkgManager ?c) (AppRoot (app ?c)) (fs (snd ?e))
             = (fs (snd ?e), [], Some (Failure ''exit status 1''))"
    by (simp add: example_defs)
  from unmet_dependency_check [OF a b c] show ?thesis by simp
qed

subsection \<open>The relocation\<close>

lemma map_of_filter_key:
  "map_of (filter (\<lambda>(k, v). P k) xs) k = (if P k then map_of xs k else None)"
  by (induction xs) auto

lemma prefix_apart:
  assumes "\<not> prefix p d" and "\<not> prefix d p"
  shows "\<not> prefix p (d @ rel)"
  using assms by (auto simp: prefix_def append_eq_append_conv2)

lemma map_of_made_dirs:
  "map_of (map (\<lambda>q. (q, Dir)) (filter (\<lambda>q. map_of t q = None) ps)) p
     = (if p \<in> set ps \<and> map_of t p = None then Some Dir else None)"
  by (induction ps) auto

lemma not_prefix_butlast: "d \<noteq> [] \<Longrightarrow> d \<notin> set (prefixes (butlast d))"
proof
  assume d: "d \<noteq> []" and "d \<in> set (prefixes (butlast d))"
  then have "prefix d (butlast d)" by (simp add: in_set_prefixes)
  then have a: "length d \<le> length (butlast d)" by (rule prefix_length_le)
  have b: "length (butlast d) = length d - 1" by simp
  from d have c: "1 \<le> length d" by (cases d) simp_all
  from a b c show False by linarith
qed

lemma helper_CopyFile_ok:
  assumes ok: "helper_CopyFile d bs t = (None, t')" and d: "d \<noteq> []"
  shows "map_of t' d = Some (File bs)"
    and "\<And>p. p \<in> set (prefixes (butlast d)) \<Longrightarrow> map_of t' p = Some Dir"
    and "\<And>p. p \<noteq> d \<Longrightarrow> map_of t p \<noteq> None \<Longrightarrow> map_of t' p = map_of t p"
    and "\<And>p. map_of t p = Some Dir \<Longrightarrow> map_of t' p = Some Dir"
proof -
  let ?ps = "prefixes (butlast d)"
  let ?t1 = "map (\<lambda>q. (q, Dir)) (filter (\<lambda>q. map_of t q = None) ?ps) @ t"
  have m1: "map_of ?t1 p = (if p \<in> set ?ps \<and> map_of t p = None then Some Dir else map_of t p)" for p
    by (simp add: map_add_def map_of_made_dirs)
  from ok have nofile: "\<not> list_ex (\<lambda>q. case map_of t q of Some (File x) \<Rightarrow> True | _ \<Rightarrow> False) ?ps"
    by (auto simp: helper_CopyFile_def split: if_splits)
  with ok have nd: "map_of ?t1 d \<noteq> Some Dir" and t': "t' = (d, File bs) # ?t1"
    by (auto simp: helper_CopyFile_def Let_def split: option.splits node.splits)
  from not_prefix_butlast [OF d] m1 [of d] have md: "map_of ?t1 d = map_of t d" by auto
  show "map_of t' d = Some (File bs)" by (simp add: t')
  show "map_of t' p = Some Dir" if p: "p \<in> set ?ps" for p
  proof -
    from p not_prefix_butlast [OF d] have ne: "p \<noteq> d" by auto
    from nofile p have "\<not> (case map_of t p of Some (File x) \<Rightarrow> True | _ \<Rightarrow> False)"
      unfolding list_ex_iff by blast
    then have "map_of t p = None \<or> map_of t p = Some Dir"
      by (simp split: option.splits node.splits)
    with p m1 [of p] have "map_of ?t1 p = Some Dir" by auto
    with ne show ?thesis by (simp add: t')
  qed
  show "map_of t' p = map_of t p" if "p \<noteq> d" "map_of t p \<noteq> None" for p
    using that m1 [of p] by (auto simp: t')
  show "map_of t' p = Some Dir" if pd: "map_of t p = Some Dir" for p
  proof -
    from pd nd md have "p \<noteq> d" by auto
    with pd m1 [of p] show ?thesis by (auto simp: t')
  qed
qed

lemma copy_files_dirs:
  assumes "copy_files dst fl t = (None, t')" and "\<forall>f \<in> set fl. fst f \<noteq> []"
    and "map_of t p = Some Dir"
  shows "map_of t' p = Some Dir"
  using assms
proof (induction fl arbitrary: t)
  case Nil
  then show ?case by simp
next
  case (Cons f fl)
  obtain r1 t1 where c: "helper_CopyFile (dst @ fst f) (snd f) t = (r1, t1)"
    by (cases "helper_CopyFile (dst @ fst f) (snd f) t")
  with Cons.prems(1) have r1: "r1 = None" and rest: "copy_files dst fl t1 = (None, t')"
    by (auto split: option.splits)
  from Cons.prems(2) have ne: "dst @ fst f \<noteq> []" by simp
  from helper_CopyFile_ok(4) [OF c [unfolded r1] ne Cons.prems(3)] have "map_of t1 p = Some Dir" .
  with Cons.IH [OF rest] Cons.prems(2) show ?case by simp
qed

lemma copy_files_ok:
  assumes "copy_files dst fl t = (None, t')" and "\<forall>f \<in> set fl. fst f \<noteq> []"
    and "distinct (map fst fl)"
  shows "(\<forall>f \<in> set fl. map_of t' (dst @ fst f) = Some (File (snd f)) \<and>
            (\<forall>p \<in> set (prefixes (butlast (dst @ fst f))). map_of t' p = Some Dir)) \<and>
         (\<forall>p. map_of t p \<noteq> None \<and> p \<notin> (\<lambda>f. dst @ fst f) ` set fl \<longrightarrow> map_of t' p = map_of t p)"
  using assms
proof (induction fl arbitrary: t)
  case Nil
  then show ?case by simp
next
  case (Cons f fl)
  let ?d = "dst @ fst f"
  obtain r1 t1 where c: "helper_CopyFile ?d (snd f) t = (r1, t1)"
    by (cases "helper_CopyFile ?d (snd f) t")
  with Cons.prems(1) have r1: "r1 = None" and rest: "copy_files dst fl t1 = (None, t')"
    by (auto split: option.splits)
  from Cons.prems(2) have ne: "?d \<noteq> []" and nes: "\<forall>f \<in> set fl. fst f \<noteq> []" by simp_all
  from Cons.prems(3) have dis: "distinct (map fst fl)" and fresh: "fst f \<notin> fst ` set fl" by simp_all
  note cf = helper_CopyFile_ok [OF c [unfolded r1] ne]
  note ih = Cons.IH [OF rest nes dis]
  from fresh have nd: "?d \<notin> (\<lambda>f. dst @ fst f) ` set fl" by auto
  from ih cf(1) nd have head: "map_of t' ?d = Some (File (snd f))" by simp
  have dirs: "map_of t' p = Some Dir" if "p \<in> set (prefixes (butlast ?d))" for p
    by (rule copy_files_dirs [OF rest nes cf(2) [OF that]])
  have frame: "map_of t' p = map_of t p"
    if p: "map_of t p \<noteq> None" "p \<notin> (\<lambda>f. dst @ fst f) ` set (f # fl)" for p
  proof -
    from p have "p \<noteq> ?d" "p \<notin> (\<lambda>f. dst @ fst f) ` set fl" by auto
    with cf(3) [of p] p(1) ih show ?thesis by simp
  qed
  from head dirs ih frame show ?case by auto
qed

lemma files_below_set:
  "set (files_below t src)
     = {(drop (length src) q, bs) | q bs. reached t src q \<and> map_of t q = Some (File bs)}"
  by (auto simp: files_below_def split: node.splits if_splits dest: map_of_SomeD) 


lemma reached_path: "reached t src q \<Longrightarrow> q = src @ drop (length src) q \<and> drop (length src) q \<noteq> []"
  by (auto simp: reached_def strict_prefix_def prefix_def)

lemma files_below_names: "\<forall>f \<in> set (files_below t src). fst f \<noteq> []"
  by (auto simp: files_below_set dest: reached_path)

lemma files_below_distinct: "distinct (map fst (files_below t src))"
proof -
  have "inj_on fst (set (files_below t src))"
  proof (rule inj_onI)
    fix x y
    assume x: "x \<in> set (files_below t src)" and y: "y \<in> set (files_below t src)"
      and e: "fst x = fst y"
    from x obtain q bs where q: "x = (drop (length src) q, bs)" "reached t src q" "map_of t q = Some (File bs)"
      by (auto simp: files_below_set)
    from y obtain q' bs' where q': "y = (drop (length src) q', bs')" "reached t src q'"
      "map_of t q' = Some (File bs')"
      by (auto simp: files_below_set)
    from e q(1) q'(1) reached_path [OF q(2)] reached_path [OF q'(2)] have "q = q'" by (metis fst_conv)
    with q q' show "x = y" by simp
  qed
  moreover have "distinct (files_below t src)" by (simp add: files_below_def)
  ultimately show ?thesis by (simp add: distinct_map)
qed

lemma relocate_fs:
  assumes "relocate c layer w3 = (None, w6)"
  shows "(map_of (fs w3) (filepath_Join (AppRoot (app c)) ModulesDir) = None \<and> fs w6 = fs w3) \<or>
         (map_of (fs w3) (filepath_Join (AppRoot (app c)) ModulesDir) = Some Dir \<and>
          (\<exists>t'. copy_files (filepath_Join (Root layer) ModulesDir)
                  (files_below (fs w3) (filepath_Join (AppRoot (app c)) ModulesDir)) (fs w3) = (None, t') \<and>
                fs w6 = filter (\<lambda>(q, n). \<not> prefix (filepath_Join (AppRoot (app c)) ModulesDir) q) t'))"
  using assms
  by (auto simp: relocate_def helper_FileExists_def os_Stat_def helper_CopyDirectory_def
      os_RemoveAll_def fault_def record_call_def Let_def
      split: option.splits sum.splits if_splits node.splits prod.splits)

lemma os_Setenv_fs: "os_Setenv k v w = (r, w') \<Longrightarrow> fs w' = fs w"
  by (auto simp: os_Setenv_def record_call_def Let_def split: option.splits)

lemma Layer_OverrideSharedEnv_fs: "Layer_OverrideSharedEnv l k v w = (r, w') \<Longrightarrow> fs w' = fs w"
  by (auto simp: Layer_OverrideSharedEnv_def record_call_def Let_def split: option.splits)

lemma Layer_AppendPathSharedEnv_fs: "Layer_AppendPathSharedEnv l k v w = (r, w') \<Longrightarrow> fs w' = fs w"
  by (auto simp: Layer_AppendPathSharedEnv_def record_call_def Let_def split: option.splits)

lemma pm_WarnUnmetDependencies_fs:
  "pm_WarnUnmetDependencies pm p w = (r, w') \<Longrightarrow> fs w' = fst (WarnUnmetDependencies pm p (fs w))"
  by (auto simp: pm_WarnUnmetDependencies_def ran_def record_call_def split: prod.splits)

lemma checkAndExport_fs:
  assumes a: "checkAndExport c layer w6 = (None, w')"
    and ro: "\<And>t. fst (WarnUnmetDependencies (pkgManager c) (AppRoot (app c)) t) = t"
  shows "fs w' = fs w6"
proof -
  let ?dst = "filepath_Join (Root layer) ModulesDir"
  obtain r1 w1 where s1: "os_Setenv ''NODE_VERBOSE'' ''true'' w6 = (r1, w1)"
    by (cases "os_Setenv ''NODE_VERBOSE'' ''true'' w6")
  obtain r2 w2 where s2: "pm_WarnUnmetDependencies (pkgManager c) (AppRoot (app c)) w1 = (r2, w2)"
    by (cases "pm_WarnUnmetDependencies (pkgManager c) (AppRoot (app c)) w1")
  obtain r3 w3 where s3: "Layer_OverrideSharedEnv layer ''NODE_PATH'' ?dst w2 = (r3, w3)"
    by (cases "Layer_OverrideSharedEnv layer ''NODE_PATH'' ?dst w2")
  obtain r4 w4 where s4: "Layer_AppendPathSharedEnv layer ''PATH'' (filepath_Join ?dst ''.bin'') w3 = (r4, w4)"
    by (cases "Layer_AppendPathSharedEnv layer ''PATH'' (filepath_Join ?dst ''.bin'') w3")
  from os_Setenv_fs [OF s1] pm_WarnUnmetDependencies_fs [OF s2] ro
    Layer_OverrideSharedEnv_fs [OF s3] Layer_AppendPathSharedEnv_fs [OF s4]
  have k: "fs w4 = fs w6" by simp
  from a s1 s2 s3 s4 have "r1 = None \<and> r2 = None \<and> r3 = None \<and> w' = w4"
    by (auto simp: checkAndExport_def split: option.splits)
  with k show ?thesis by simp
qed

text \<open>
  C5, as the code has it. Take a contribution that returns no error, with the
  application's node_modules and the layer's node_modules apart (neither path below the
  other) and a check that leaves the file system as it is. Afterwards the application
  root has no node_modules. If node_modules was not there when the rebuild or install
  returned, the file system is as that step left it: nothing is copied. If it was there,
  every regular file that the walk from the application's node_modules reaches is, with
  the same bytes, at the same relative path below the layer's node_modules, and then the
  layer's node_modules is a directory. Nothing is said of directories that hold no file:
  the helper does not copy them, and it does not create the layer's node_modules for a
  node_modules without files.
\<close>

theorem node_modules_relocated:
  assumes "installOrRebuild c layer w = (None, w3)"
    and "contributeNodeModules c layer w = (None, w')"
    and "\<forall>t. fst (WarnUnmetDependencies (pkgManager c) (AppRoot (app c)) t) = t"
    and "\<not> prefix (filepath_Join (AppRoot (app c)) ModulesDir) (filepath_Join (Root layer) ModulesDir)"
    and "\<not> prefix (filepath_Join (Root layer) ModulesDir) (filepath_Join (AppRoot (app c)) ModulesDir)"
  shows "map_of (fs w') (filepath_Join (AppRoot (app c)) ModulesDir) = None \<and>
         (if map_of (fs w3) (filepath_Join (AppRoot (app c)) ModulesDir) = None
          then fs w' = fs w3
          else \<forall>q bs. reached (fs w3) (filepath_Join (AppRoot (app c)) ModulesDir) q \<and>
                      map_of (fs w3) q = Some (File bs) \<longrightarrow>
                 map_of (fs w') (filepath_Join (Root layer) ModulesDir
                                   @ drop (length (filepath_Join (AppRoot (app c)) ModulesDir)) q)
                   = Some (File bs) \<and>
                 map_of (fs w') (filepath_Join (Root layer) ModulesDir) = Some Dir)"
proof -
  let ?nm = "filepath_Join (AppRoot (app c)) ModulesDir"
  let ?dst = "filepath_Join (Root layer) ModulesDir"
  from assms(1,2) have rest: "andThen (relocate c layer) (checkAndExport c layer) w3 = (None, w')"
    unfolding contributeNodeModules_stages by (simp add: andThen_def [of "installOrRebuild c layer"])
  obtain r6 w6 where s6: "relocate c layer w3 = (r6, w6)" by (cases "relocate c layer w3")
  with rest have r6: "r6 = None" and ce: "checkAndExport c layer w6 = (None, w')"
    by (auto simp: andThen_def split: option.splits)
  from assms(3) have ro: "\<And>t. fst (WarnUnmetDependencies (pkgManager c) (AppRoot (app c)) t) = t"
    by simp
  have k: "fs w' = fs w6" by (rule checkAndExport_fs [OF ce ro])
  from relocate_fs [of c layer w3 w6] s6 r6
  consider (skipped) "map_of (fs w3) ?nm = None" "fs w6 = fs w3"
    | (moved) t' where "map_of (fs w3) ?nm = Some Dir"
        "copy_files ?dst (files_below (fs w3) ?nm) (fs w3) = (None, t')"
        "fs w6 = filter (\<lambda>(q, n). \<not> prefix ?nm q) t'"
    by auto
  then show ?thesis
  proof cases
    case skipped
    with k show ?thesis by simp
  next
    case moved
    note cf = copy_files_ok [OF moved(2) files_below_names files_below_distinct]
    have gone: "map_of (fs w') ?nm = None"
      using k moved(3) by (simp only: map_of_filter_key) simp
    have each: "map_of (fs w') (?dst @ drop (length ?nm) q) = Some (File bs) \<and> map_of (fs w') ?dst = Some Dir"
      if q: "reached (fs w3) ?nm q" and n: "map_of (fs w3) q = Some (File bs)" for q bs
    proof -
      let ?rel = "drop (length ?nm) q"
      from q n have m: "(?rel, bs) \<in> set (files_below (fs w3) ?nm)"
        by (auto simp: files_below_set)
      from reached_path [OF q] have ne: "?rel \<noteq> []" by simp
      from cf m have f: "map_of t' (?dst @ ?rel) = Some (File bs)"
        and d: "\<forall>p \<in> set (prefixes (butlast (?dst @ ?rel))). map_of t' p = Some Dir"
        by force+
      from ne have "prefix ?dst (butlast (?dst @ ?rel))" by (simp add: butlast_append)
      with d have top: "map_of t' ?dst = Some Dir" by (simp add: in_set_prefixes)
      have a1: "\<not> prefix ?nm (?dst @ ?rel)" by (rule prefix_apart [OF assms(4,5)])
      from f a1 top assms(4) k moved(3) show ?thesis by (simp only: map_of_filter_key) simp
    qed
    from moved(1) have "map_of (fs w3) ?nm \<noteq> None" by simp
    with gone each show ?thesis by (simp only: if_False) blast
  qed
qed

lemmas stage_defs = andThen_def installOrRebuild_def relocate_def checkAndExport_def

theorem node_modules_relocated_witness:
  "map_of (fs (snd (contributeNodeModules (contributor_ws pm_npm) (Layers_Layer layers_ws Dependency)
      (world_of fs_bare (\<lambda>n. 5))))) [''workspace'', ''node_modules''] = None \<and>
   map_of (fs (snd (contributeNodeModules (contributor_ws pm_npm) (Layers_Layer layers_ws Dependency)
      (world_of fs_bare (\<lambda>n. 5))))) [''layers'', ''node_modules'', ''node_modules''] = Some Dir \<and>
   map_of (fs (snd (contributeNodeModules (contributor_ws pm_npm) (Layers_Layer layers_ws Dependency)
      (world_of fs_bare (\<lambda>n. 5)))))
      [''layers'', ''node_modules'', ''node_modules'', ''leftpad'', ''index.js''] = Some (File [1, 2, 3])"
proof -
  let ?c = "contributor_ws pm_npm"
  let ?l = "Layers_Layer layers_ws Dependency"
  let ?w = "world_of fs_bare (\<lambda>n. 5)"
  let ?i = "installOrRebuild ?c ?l ?w"
  let ?r = "contributeNodeModules ?c ?l ?w"
  let ?nm = "filepath_Join (AppRoot (app ?c)) ModulesDir"
  let ?q = "[''workspace'', ''node_modules'', ''leftpad'', ''index.js'']"
  have "fst ?i = None" by (simp add: stage_defs model_defs example_defs)
  then have a: "?i = (None, snd ?i)" by (simp add: prod_eq_iff)
  have "fst ?r = None" by (simp add: model_defs example_defs)
  then have b: "?r = (None, snd ?r)" by (simp add: prod_eq_iff)
  have ro: "\<forall>t. fst (WarnUnmetDependencies (pkgManager ?c) (AppRoot (app ?c)) t) = t"
    by (simp add: example_defs)
  have p1: "\<not> prefix ?nm (filepath_Join (Root ?l) ModulesDir)"
    and p2: "\<not> prefix (filepath_Join (Root ?l) ModulesDir) ?nm"
    by (simp_all add: example_defs)
  note th = node_modules_relocated [OF a b ro p1 p2]
  have e: "map_of (fs (snd ?i)) ?nm = Some Dir"
    by (simp add: stage_defs model_defs example_defs)
  have q: "reached (fs (snd ?i)) ?nm ?q \<and> map_of (fs (snd ?i)) ?q = Some (File [1, 2, 3])"
    by (simp add: stage_defs model_defs example_defs)
  from th e have g: "map_of (fs (snd ?r)) ?nm = None"
    and f: "\<forall>q bs. reached (fs (snd ?i)) ?nm q \<and> map_of (fs (snd ?i)) q = Some (File bs) \<longrightarrow>
              map_of (fs (snd ?r)) (filepath_Join (Root ?l) ModulesDir @ drop (length ?nm) q) = Some (File bs) \<and>
              map_of (fs (snd ?r)) (filepath_Join (Root ?l) ModulesDir) = Some Dir"
    by simp_all
  from f q have "map_of (fs (snd ?r)) (filepath_Join (Root ?l) ModulesDir @ drop (length ?nm) ?q)
      = Some (File [1, 2, 3]) \<and> map_of (fs (snd ?r)) (filepath_Join (Root ?l) ModulesDir) = Some Dir"
    by blast
  with g show ?thesis by (simp add: example_defs)
qed

text \<open>
  The claim as stated fails where the application has no node_modules and the package
  manager's install succeeds without producing one: the contribution returns no error
  and nothing is below the layer's root.
\<close>

theorem nothing_installed_nothing_relocated:
  "fst (contributeNodeModules (contributor_ws pm_idle) (Layers_Layer layers_ws Dependency)
          (world_of fs_bare (\<lambda>n. 5))) = None \<and>
   filter (\<lambda>(q, n). prefix [''layers'', ''node_modules''] q)
     (fs (snd (contributeNodeModules (contributor_ws pm_idle) (Layers_Layer layers_ws Dependency)
          (world_of fs_bare (\<lambda>n. 5))))) = []"
  by (simp add: model_defs example_defs)

text \<open>
  A node_modules that holds a directory and no file is taken out of the application and
  leaves nothing at the layer: directories are made there only for the files copied.
\<close>

lemma empty_directories_are_not_copied:
  "contributeNodeModules_fs
     [([''workspace''], Dir), ([''workspace'', ''node_modules''], Dir),
      ([''workspace'', ''node_modules'', ''leftpad''], Dir)]
     = (None, [([''workspace''], Dir)])"
  by (simp add: contributeNodeModules_fs_def model_defs example_defs)

subsection \<open>Reuse on the second build\<close>










end
